theory Spec2Isabelle
  imports Complex_Main
begin

section \<open>JavaScript values\<close>

text \<open>
  The export and import utilities move values between typed records and the cells of a
  sheet or of a delimited-text file. A cell holds a JavaScript value: nothing at all, a
  string, a number, a boolean. A number is the rational a finite double is, with \<open>JNaN\<close>
  for the one number that is not; the infinities are outside the model.
\<close>

datatype jsval = Undefined | JStr string | JNum rat | JBool bool | JNaN

text \<open>What \<open>if (v)\<close>, \<open>!v\<close> and \<open>v || w\<close> test.\<close>

fun truthy :: "jsval \<Rightarrow> bool" where
  "truthy Undefined = False"
| "truthy (JStr s) = (s \<noteq> [])"
| "truthy (JNum q) = (q \<noteq> 0)"
| "truthy (JBool b) = b"
| "truthy JNaN = False"

text \<open>\<open>a || b\<close>: the left operand when it is truthy, the right one otherwise.\<close>

definition js_or :: "jsval \<Rightarrow> jsval \<Rightarrow> jsval" where
  "js_or a b = (if truthy a then a else b)"

section \<open>Rows, sheets, delimited text and reports\<close>

text \<open>
  An object literal with string keys is a list of key and value pairs in the order the
  keys were written, which the libraries use as the column order.
\<close>

type_synonym row = "(string \<times> jsval) list"

text \<open>
  A worksheet is a grid below a header row. The header is the list of keys under which
  \<open>XLSX.utils.sheet_to_json\<close> files the columns (it tells repeated labels apart by a
  suffix, so these keys are those of its objects).
\<close>

record worksheet =
  header :: "string list"
  cells :: "jsval list list"
  cols :: "nat list"  \<comment> \<open>\<open>ws['!cols']\<close>, the column widths\<close>

type_synonym workbook = "(string \<times> worksheet) list"

text \<open>
  Delimited text is kept as its lines of fields; quoting and escaping are PapaParse's.
\<close>

type_synonym csv = "string list list"

text \<open>A paginated report is the sequence of drawing calls made on the document.\<close>

datatype pdf_op =
    SetFontSize nat
  | Text string rat rat
  | AutoTable "string list" "jsval list list" rat
  | AddPage

datatype content = XlsxContent workbook | CsvContent csv | PdfContent "pdf_op list"

record File =
  file_name :: string
  file_content :: content

section \<open>The environment\<close>

text \<open>
  The clock, the locale, floating-point arithmetic, the engine's printing of a number
  that is not a small integer, the height a drawn table ends at, and what the two
  libraries make of a file of another kind are not part of the utilities; the model
  takes them from the environment.
\<close>

record runtime =
  today :: string  \<comment> \<open>\<open>new Date().toISOString().split('T')[0]\<close>\<close>
  nowLocaleString :: string  \<comment> \<open>\<open>new Date().toLocaleString()\<close>\<close>
  localeString :: "jsval \<Rightarrow> string"  \<comment> \<open>\<open>new Date(v).toLocaleString()\<close>\<close>
  localeDateString :: "jsval \<Rightarrow> string"  \<comment> \<open>\<open>new Date(v).toLocaleDateString()\<close>\<close>
  floatAdd :: "rat \<Rightarrow> rat \<Rightarrow> rat"  \<comment> \<open>\<open>a + b\<close> on doubles: the sum, rounded\<close>
  floatMul :: "rat \<Rightarrow> rat \<Rightarrow> rat"  \<comment> \<open>\<open>a * b\<close> on doubles\<close>
  floatDiv :: "rat \<Rightarrow> rat \<Rightarrow> rat"  \<comment> \<open>\<open>a / b\<close> on doubles, for a divisor that is not zero\<close>
  engineString :: "rat \<Rightarrow> string"
    \<comment> \<open>\<open>String(x)\<close> for a number that is not an integer of magnitude up to \<open>2^53 - 1\<close>\<close>
  tableFinalY :: "string list \<Rightarrow> jsval list list \<Rightarrow> rat \<Rightarrow> rat"
    \<comment> \<open>\<open>doc.autoTable.previous.finalY\<close> after a table drawn from a given height\<close>
  foreignWorkbook :: "content \<Rightarrow> workbook option"
    \<comment> \<open>what \<open>XLSX.read\<close> reads from a file that is not a workbook, if it reads one\<close>
  foreignCsv :: "content \<Rightarrow> csv option"
    \<comment> \<open>the lines \<open>Papa.parse\<close> finds in a file that is not delimited text, if it finds any\<close>

section \<open>Numbers as text\<close>

definition digit_char :: "nat \<Rightarrow> char" where
  "digit_char d = ''0123456789'' ! d"

fun show_nat :: "nat \<Rightarrow> string" where
  "show_nat n = (if n < 10 then [digit_char n] else show_nat (n div 10) @ [digit_char (n mod 10)])"

declare show_nat.simps [simp del]

definition show_int :: "int \<Rightarrow> string" where
  "show_int i = (if i < 0 then CHR ''-'' # show_nat (nat (- i)) else show_nat (nat i))"

text \<open>
  \<open>Number.MAX_SAFE_INTEGER\<close>. Every integer up to it in magnitude is a double, and
  \<open>String\<close> prints it with all its decimal digits; beyond it, and for a number that is
  not an integer, the digits are the engine's (the shortest that read back as the same
  double, in exponent form from \<open>10^21\<close> on).
\<close>

definition maxSafeInteger :: int where
  "maxSafeInteger = 9007199254740991"

definition numberToString :: "runtime \<Rightarrow> rat \<Rightarrow> string" where
  "numberToString rt q =
     (if of_int \<lfloor>q\<rfloor> = q \<and> \<bar>q\<bar> \<le> of_int maxSafeInteger then show_int \<lfloor>q\<rfloor>
      else engineString rt q)"

fun toString :: "runtime \<Rightarrow> jsval \<Rightarrow> string" where
  "toString rt Undefined = ''undefined''"
| "toString rt (JStr s) = s"
| "toString rt (JNum q) = numberToString rt q"
| "toString rt (JBool b) = (if b then ''true'' else ''false'')"
| "toString rt JNaN = ''NaN''"

text \<open>
  \<open>x.toFixed(1)\<close>: the sign, then, for a magnitude below \<open>10^21\<close>, the integer nearest
  to ten times the magnitude (the larger of two equally near ones), written with a point
  before its last digit; from \<open>10^21\<close> on, the magnitude as \<open>String\<close> prints it.
\<close>

definition toFixed1 :: "runtime \<Rightarrow> rat \<Rightarrow> string" where
  "toFixed1 rt x =
     (if x < 0 then ''-'' else [])
     @ (if 10 ^ 21 \<le> \<bar>x\<bar> then numberToString rt \<bar>x\<bar>
        else (let n = nat \<lfloor>\<bar>x\<bar> * 10 + 1 / 2\<rfloor>
              in show_nat (n div 10) @ ''.'' @ show_nat (n mod 10)))"

section \<open>parseInt\<close>

text \<open>
  \<open>parseInt(v)\<close> with no radix: the argument as a string, leading white space skipped,
  an optional sign, an optional \<open>0x\<close> prefix that switches to radix 16, then the longest
  run of digits; \<open>NaN\<close> (here \<open>None\<close>) when that run is empty. The white space is the
  ASCII part of JavaScript's. The result is the exact value of the run of digits, which
  is the number \<open>parseInt\<close> returns as long as that value is a double (any value up to
  \<open>2^53\<close> is).
\<close>

definition isWhiteSpace :: "char \<Rightarrow> bool" where
  "isWhiteSpace c = (c \<in> set [CHR '' '', CHR 0x09, CHR 0x0A, CHR 0x0B, CHR 0x0C, CHR 0x0D])"

definition digitValue :: "char \<Rightarrow> nat option" where
  "digitValue c = map_of
     [(CHR ''0'', 0), (CHR ''1'', 1), (CHR ''2'', 2), (CHR ''3'', 3), (CHR ''4'', 4),
      (CHR ''5'', 5), (CHR ''6'', 6), (CHR ''7'', 7), (CHR ''8'', 8), (CHR ''9'', 9),
      (CHR ''a'', 10), (CHR ''b'', 11), (CHR ''c'', 12), (CHR ''d'', 13), (CHR ''e'', 14),
      (CHR ''f'', 15), (CHR ''A'', 10), (CHR ''B'', 11), (CHR ''C'', 12), (CHR ''D'', 13),
      (CHR ''E'', 14), (CHR ''F'', 15)] c"

definition isDigit :: "nat \<Rightarrow> char \<Rightarrow> bool" where
  "isDigit radix c = (case digitValue c of None \<Rightarrow> False | Some d \<Rightarrow> d < radix)"

definition digitsValue :: "nat \<Rightarrow> string \<Rightarrow> nat" where
  "digitsValue radix ds = foldl (\<lambda>acc c. acc * radix + (case digitValue c of None \<Rightarrow> 0 | Some d \<Rightarrow> d)) 0 ds"

definition parseDigits :: "nat \<Rightarrow> string \<Rightarrow> nat option" where
  "parseDigits radix s =
     (let z = takeWhile (isDigit radix) s
      in if z = [] then None else Some (digitsValue radix z))"

definition parseIntString :: "string \<Rightarrow> int option" where
  "parseIntString input =
     (let s = dropWhile isWhiteSpace input;
          neg = (s \<noteq> [] \<and> hd s = CHR ''-'');
          s1 = (if s \<noteq> [] \<and> (hd s = CHR ''+'' \<or> hd s = CHR ''-'') then tl s else s);
          hex = (take 2 s1 = ''0x'' \<or> take 2 s1 = ''0X'');
          s2 = (if hex then drop 2 s1 else s1)
      in case parseDigits (if hex then 16 else 10) s2 of
           None \<Rightarrow> None
         | Some n \<Rightarrow> Some (if neg then - int n else int n))"

definition parseInt :: "runtime \<Rightarrow> jsval \<Rightarrow> int option" where
  "parseInt rt v = parseIntString (toString rt v)"

text \<open>\<open>parseInt(v) || 0\<close>: \<open>NaN\<close> and zero both give zero.\<close>

definition parseIntOr0 :: "runtime \<Rightarrow> jsval \<Rightarrow> int" where
  "parseIntOr0 rt v = (case parseInt rt v of None \<Rightarrow> 0 | Some n \<Rightarrow> n)"

section \<open>What the libraries write and read\<close>

text \<open>\<open>row[key]\<close>: the value under the key, \<open>undefined\<close> when the key is missing.\<close>

definition row_get :: "row \<Rightarrow> string \<Rightarrow> jsval" where
  "row_get r k = (case map_of r k of None \<Rightarrow> Undefined | Some v \<Rightarrow> v)"

text \<open>
  \<open>XLSX.utils.json_to_sheet\<close> collects the header from the keys of the objects in order
  of first appearance and writes one grid row per object, leaving a cell empty where the
  object has no value; \<open>XLSX.utils.sheet_to_json\<close> reads each grid row back into an
  object of its non-empty cells and skips a row with no cell at all. What
  \<open>XLSX.writeFile\<close> and \<open>XLSX.read\<close> do to the bytes in between is the library's
  business: the model keeps the grid.
\<close>

definition add_keys :: "string list \<Rightarrow> string list \<Rightarrow> string list" where
  "add_keys hdr ks = foldl (\<lambda>h k. if k \<in> set h then h else h @ [k]) hdr ks"

definition json_to_sheet :: "row list \<Rightarrow> worksheet" where
  "json_to_sheet data =
     (let hdr = foldl (\<lambda>h obj. add_keys h (map fst obj)) [] data
      in \<lparr>header = hdr, cells = map (\<lambda>obj. map (row_get obj) hdr) data, cols = []\<rparr>)"

definition sheet_to_json :: "worksheet \<Rightarrow> row list" where
  "sheet_to_json ws =
     filter (\<lambda>obj. obj \<noteq> [])
       (map (\<lambda>cs. filter (\<lambda>(k, v). v \<noteq> Undefined) (zip (header ws) cs)) (cells ws))"

text \<open>
  \<open>Papa.unparse\<close> of a list of objects writes the keys of the first object as the header
  line and one line per object, each value as a string (nothing for \<open>undefined\<close>);
  of the empty list it writes nothing. \<open>Papa.parse\<close> with \<open>header: true\<close> turns every
  line after the first into an object keyed by the header fields (taken to be distinct:
  the versions of the library differ on a repeated one).
\<close>

definition csvField :: "runtime \<Rightarrow> jsval \<Rightarrow> string" where
  "csvField rt v = (if v = Undefined then [] else toString rt v)"

definition papa_unparse :: "runtime \<Rightarrow> row list \<Rightarrow> csv" where
  "papa_unparse rt data =
     (case data of
        [] \<Rightarrow> []
      | first # _ \<Rightarrow>
          (let hdr = map fst first
           in hdr # map (\<lambda>obj. map (\<lambda>k. csvField rt (row_get obj k)) hdr) data))"

definition papa_parse :: "csv \<Rightarrow> row list" where
  "papa_parse ls =
     (case ls of
        [] \<Rightarrow> []
      | hdr # rest \<Rightarrow> map (\<lambda>l. zip hdr (map JStr l)) rest)"

text \<open>
  The workbook \<open>XLSX.read\<close> reads from a file (none when it throws), and the lines
  \<open>Papa.parse\<close> finds in one (none when it reports an error).
\<close>

definition xlsx_read :: "runtime \<Rightarrow> File \<Rightarrow> workbook option" where
  "xlsx_read rt f =
     (case file_content f of XlsxContent wb \<Rightarrow> Some wb | other \<Rightarrow> foreignWorkbook rt other)"

definition papa_lines :: "runtime \<Rightarrow> File \<Rightarrow> csv option" where
  "papa_lines rt f =
     (case file_content f of CsvContent ls \<Rightarrow> Some ls | other \<Rightarrow> foreignCsv rt other)"

section \<open>Records\<close>

record link =
  link_length :: rat
  link_totalLoss :: rat

record route =
  route_id :: string
  route_name :: string
  route_status :: string
  route_start :: string  \<comment> \<open>\<open>location.start\<close>\<close>
  route_end :: string  \<comment> \<open>\<open>location.end\<close>\<close>
  route_fiberCount :: int
  route_links :: "link list"
  route_troubleTickets :: int
  route_handhole :: int  \<comment> \<open>\<open>assets.handhole\<close>\<close>
  route_odc :: int
  route_pole :: int
  route_jc :: int
  route_lastMaintenance :: string
  route_nextMaintenance :: string

record ExportOptions =
  opt_filename :: "string option"
  opt_title :: "string option"
  opt_includeTimestamp :: "bool option"

text \<open>\<open>options.x || fallback\<close> for an optional string.\<close>

definition str_or :: "string option \<Rightarrow> string \<Rightarrow> string" where
  "str_or x d = (case x of None \<Rightarrow> d | Some s \<Rightarrow> if s = [] then d else s)"

text \<open>\<open>options.includeTimestamp ? `_${date}` : ''\<close>\<close>

definition timestampSuffix :: "runtime \<Rightarrow> ExportOptions \<Rightarrow> string" where
  "timestampSuffix rt options =
     (if opt_includeTimestamp options = Some True then ''_'' @ today rt else [])"

section \<open>Route exports\<close>

definition totalLength :: "runtime \<Rightarrow> route \<Rightarrow> rat" where
  "totalLength rt r = foldl (\<lambda>sum l. floatAdd rt sum (link_length l)) 0 (route_links r)"

definition averageLoss :: "runtime \<Rightarrow> route \<Rightarrow> string" where
  "averageLoss rt r =
     (if length (route_links r) > 0
      then toFixed1 rt
             (floatDiv rt (foldl (\<lambda>sum l. floatAdd rt sum (link_totalLoss l)) 0 (route_links r))
                (of_nat (length (route_links r))))
      else ''0'')"

text \<open>
  The flattened route object, written out three times in the source with the same keys
  and values: in \<open>exportRoutesToXLSX\<close>, in \<open>exportRoutesToCSV\<close> and for the routes sheet
  of \<open>exportAllData\<close>.
\<close>

definition routeExportRow :: "runtime \<Rightarrow> route \<Rightarrow> row" where
  "routeExportRow rt r =
     [(''Route ID'', JStr (route_id r)),
      (''Route Name'', JStr (route_name r)),
      (''Status'', JStr (route_status r)),
      (''Start Location'', JStr (route_start r)),
      (''End Location'', JStr (route_end r)),
      (''Fiber Count'', JNum (of_int (route_fiberCount r))),
      (''Total Links'', JNum (of_nat (length (route_links r)))),
      (''Total Length (km)'', JStr (toFixed1 rt (totalLength rt r))),
      (''Average Loss (dB)'', JStr (averageLoss rt r)),
      (''Trouble Tickets'', JNum (of_int (route_troubleTickets r))),
      (''Handhole Count'', JNum (of_int (route_handhole r))),
      (''ODC Count'', JNum (of_int (route_odc r))),
      (''Pole Count'', JNum (of_int (route_pole r))),
      (''JC Count'', JNum (of_int (route_jc r))),
      (''Last Maintenance'', JStr (route_lastMaintenance r)),
      (''Next Maintenance'', JStr (route_nextMaintenance r))]"

definition exportRoutesToXLSX :: "runtime \<Rightarrow> route list \<Rightarrow> ExportOptions \<Rightarrow> File" where
  "exportRoutesToXLSX rt routes options =
     (let filename = str_or (opt_filename options) ''routes_export'';
          timestamp = timestampSuffix rt options;
          exportData = map (routeExportRow rt) routes;
          ws = json_to_sheet exportData;
          colWidths = map (\<lambda>key. max (length key) 15)
                        (case exportData of [] \<Rightarrow> [] | first # _ \<Rightarrow> map fst first)
      in \<lparr>file_name = filename @ timestamp @ ''.xlsx'',
          file_content = XlsxContent [(''Routes'', ws\<lparr>cols := colWidths\<rparr>)]\<rparr>)"

definition exportRoutesToCSV :: "runtime \<Rightarrow> route list \<Rightarrow> ExportOptions \<Rightarrow> File" where
  "exportRoutesToCSV rt routes options =
     (let filename = str_or (opt_filename options) ''routes_export'';
          timestamp = timestampSuffix rt options;
          exportData = map (routeExportRow rt) routes
      in \<lparr>file_name = filename @ timestamp @ ''.csv'',
          file_content = CsvContent (papa_unparse rt exportData)\<rparr>)"

text \<open>The arrow of the location column, U+2192, in UTF-8.\<close>

definition arrow :: string where
  "arrow = [CHR 0xE2, CHR 0x86, CHR 0x92]"

definition routePdfRow :: "runtime \<Rightarrow> route \<Rightarrow> jsval list" where
  "routePdfRow rt r =
     [JStr (route_name r),
      JStr (route_status r),
      JStr (route_start r @ '' '' @ arrow @ '' '' @ route_end r),
      JStr (numberToString rt (of_int (route_fiberCount r))),
      JStr (show_nat (length (route_links r))),
      JStr (toFixed1 rt (totalLength rt r)),
      JStr (averageLoss rt r),
      JStr (numberToString rt (of_int (route_troubleTickets r)))]"

definition exportRoutesToPDF :: "runtime \<Rightarrow> route list \<Rightarrow> ExportOptions \<Rightarrow> File" where
  "exportRoutesToPDF rt routes options =
     (let filename = str_or (opt_filename options) ''routes_export'';
          title = str_or (opt_title options) ''Routes Report'';
          timestamp = timestampSuffix rt options;
          tableData = map (routePdfRow rt) routes
      in \<lparr>file_name = filename @ timestamp @ ''.pdf'',
          file_content = PdfContent
            [SetFontSize 20, Text title 20 20,
             SetFontSize 10, Text (''Generated on: '' @ nowLocaleString rt) 20 30,
             AutoTable [''Route'', ''Status'', ''Location'', ''Fibers'', ''Links'',
                        ''Length (km)'', ''Avg Loss (dB)'', ''Tickets'']
               tableData 40]\<rparr>)"

section \<open>Route imports\<close>

text \<open>
  The failures of the pipeline. The source raises \<open>Error\<close> objects told apart by their
  message; the names are the ones of the specification's taxonomy.
\<close>

datatype error =
    MissingData  \<comment> \<open>\<open>No ... data available\<close>, \<open>Incomplete data for full export\<close>\<close>
  | UnsupportedFormat  \<comment> \<open>\<open>CSV export not available for ...\<close>\<close>
  | UnsupportedFileType  \<comment> \<open>\<open>Unsupported file format. Please use .xlsx or .csv files.\<close>\<close>
  | UnsupportedImportKind  \<comment> \<open>\<open>Import is currently only supported for routes\<close>\<close>
  | EmptyImport  \<comment> \<open>\<open>No valid data found in the file\<close>\<close>
  | ParseFailure  \<comment> \<open>\<open>Failed to parse Excel file\<close>, \<open>Failed to parse CSV file\<close>\<close>

datatype dataType = Routes | Tickets | Assets | Maintenance | All

text \<open>
  The partial route an importer builds from one parsed row. The name, the status, the
  locations and the dates are whatever value the row holds (or \<open>undefined\<close>); the counts
  went through \<open>parseInt\<close>.
\<close>

record importedRoute =
  imp_name :: jsval
  imp_status :: jsval
  imp_fiberCount :: int
  imp_start :: jsval
  imp_end :: jsval
  imp_lastMaintenance :: jsval
  imp_nextMaintenance :: jsval
  imp_troubleTickets :: int
  imp_handhole :: int
  imp_odc :: int
  imp_pole :: int
  imp_jc :: int
  imp_links :: "link list"

text \<open>The object literal both importers map over the parsed rows.\<close>

definition routeOfRow :: "runtime \<Rightarrow> row \<Rightarrow> importedRoute" where
  "routeOfRow rt r =
     \<lparr>imp_name = js_or (row_get r ''Route Name'') (row_get r ''name''),
      imp_status = js_or (js_or (row_get r ''Status'') (row_get r ''status'')) (JStr ''operational''),
      imp_fiberCount = parseIntOr0 rt (js_or (row_get r ''Fiber Count'') (row_get r ''fiberCount'')),
      imp_start = js_or (js_or (row_get r ''Start Location'') (row_get r ''start'')) (JStr []),
      imp_end = js_or (js_or (row_get r ''End Location'') (row_get r ''end'')) (JStr []),
      imp_lastMaintenance =
        js_or (js_or (row_get r ''Last Maintenance'') (row_get r ''lastMaintenance'')) (JStr (today rt)),
      imp_nextMaintenance =
        js_or (js_or (row_get r ''Next Maintenance'') (row_get r ''nextMaintenance'')) (JStr (today rt)),
      imp_troubleTickets =
        parseIntOr0 rt (js_or (row_get r ''Trouble Tickets'') (row_get r ''troubleTickets'')),
      imp_handhole = parseIntOr0 rt (js_or (row_get r ''Handhole Count'') (row_get r ''handhole'')),
      imp_odc = parseIntOr0 rt (js_or (row_get r ''ODC Count'') (row_get r ''odc'')),
      imp_pole = parseIntOr0 rt (js_or (row_get r ''Pole Count'') (row_get r ''pole'')),
      imp_jc = parseIntOr0 rt (js_or (row_get r ''JC Count'') (row_get r ''jc'')),
      imp_links = []\<rparr>"

text \<open>
  \<open>importRoutesFromXLSX\<close> reads the first sheet of the workbook and resolves with every
  row it maps; \<open>importRoutesFromCSV\<close> resolves with the mapped rows whose name is truthy.
  Either rejects with a parse failure when its library cannot read the file.
\<close>

definition importRoutesFromXLSX :: "runtime \<Rightarrow> File \<Rightarrow> error + importedRoute list" where
  "importRoutesFromXLSX rt f =
     (case xlsx_read rt f of
        Some wb \<Rightarrow>
          (let jsonData = (case wb of [] \<Rightarrow> [] | (_, worksheet) # _ \<Rightarrow> sheet_to_json worksheet)
           in Inr (map (routeOfRow rt) jsonData))
      | None \<Rightarrow> Inl ParseFailure)"

definition importRoutesFromCSV :: "runtime \<Rightarrow> File \<Rightarrow> error + importedRoute list" where
  "importRoutesFromCSV rt f =
     (case papa_lines rt f of
        Some ls \<Rightarrow>
          (let routes = map (routeOfRow rt) (papa_parse ls)
           in Inr (filter (\<lambda>route. truthy (imp_name route)) routes))
      | None \<Rightarrow> Inl ParseFailure)"

definition endsWith :: "string \<Rightarrow> string \<Rightarrow> bool" where
  "endsWith s t = (length t \<le> length s \<and> drop (length s - length t) s = t)"

text \<open>
  \<open>handleImport\<close> of the dialog, which is \<open>importRoutes\<close> of the specification: it picks
  the reader by the file's extension and refuses a result with no record.
\<close>

definition handleImport :: "runtime \<Rightarrow> dataType \<Rightarrow> File \<Rightarrow> error + importedRoute list" where
  "handleImport rt dt f =
     (case (if dt = Routes
            then (if endsWith (file_name f) ''.xlsx'' then importRoutesFromXLSX rt f
                  else if endsWith (file_name f) ''.csv'' then importRoutesFromCSV rt f
                  else Inl UnsupportedFileType)
            else Inl UnsupportedImportKind) of
        Inl e \<Rightarrow> Inl e
      | Inr importedData \<Rightarrow>
          if length importedData = 0 then Inl EmptyImport else Inr importedData)"

section \<open>Trouble ticket exports\<close>

text \<open>
  The type declarations of the records are not among the sources. A field the code
  compares, measures or computes with has the type that use needs; a field that is only
  copied into a cell, or only tested with \<open>||\<close>, is kept as the JavaScript value it is
  (\<open>Undefined\<close> when an optional field is absent).
\<close>

record material =
  mat_materialType :: jsval
  mat_materialName :: jsval
  mat_quantity :: jsval
  mat_unit :: jsval
  mat_supplier :: jsval
  mat_partNumber :: jsval
  mat_usedDate :: jsval
  mat_location :: jsval
  mat_coordinates :: "(rat \<times> rat) option"  \<comment> \<open>latitude, longitude\<close>
  mat_notes :: jsval

record ticket =
  ticket_ticketNumber :: jsval
  ticket_routeId :: string
  ticket_linkId :: jsval
  ticket_title :: string
  ticket_description :: jsval
  ticket_priority :: jsval
  ticket_status :: string
  ticket_category :: jsval
  ticket_reportedBy :: jsval
  ticket_assignedTo :: jsval
  ticket_personHandling :: jsval
  ticket_impact :: jsval
  ticket_repairType :: jsval
  ticket_coresSpliced :: jsval
  ticket_rootCause :: jsval
  ticket_trafficImpacted :: jsval
  ticket_address :: jsval  \<comment> \<open>\<open>location.address\<close>\<close>
  ticket_landmark :: jsval  \<comment> \<open>\<open>location.landmark\<close>\<close>
  ticket_latitude :: rat  \<comment> \<open>\<open>problemCoordinates.latitude\<close>\<close>
  ticket_longitude :: rat
  ticket_createdAt :: jsval
  ticket_updatedAt :: jsval
  ticket_resolvedAt :: jsval
  ticket_closedAt :: jsval
  ticket_totalDuration :: "rat option"  \<comment> \<open>a number of minutes, when present\<close>
  ticket_slaTarget :: jsval
  ticket_slaStatus :: jsval
  ticket_activities :: "jsval list"
  ticket_materialUsage :: "material list"
  ticket_photos :: "jsval list"

text \<open>
  \<open>getRouteName\<close>, declared anew with the same body in each of the six exports of
  tickets, assets and maintenance records.
\<close>

definition getRouteName :: "route list \<Rightarrow> string \<Rightarrow> string" where
  "getRouteName routes routeId =
     (case find (\<lambda>r. route_id r = routeId) routes of
        Some route \<Rightarrow> route_name route
      | None \<Rightarrow> ''Unknown Route'')"

text \<open>
  \<open>a % b\<close> for a divisor that is not zero: what is left of \<open>a\<close> after taking \<open>b\<close> away
  as many whole times as the quotient, cut towards zero, says; it has the sign of \<open>a\<close>.
  On doubles the operation is exact.
\<close>

definition jsRemainder :: "rat \<Rightarrow> rat \<Rightarrow> rat" where
  "jsRemainder a b = a - b * of_int (if a / b < 0 then \<lceil>a / b\<rceil> else \<lfloor>a / b\<rfloor>)"

text \<open>
  \<open>formatDuration\<close>: \<open>!minutes\<close> holds for an absent duration and for zero; the quotient
  \<open>minutes / 60\<close> is the engine's, \<open>Math.floor\<close> of it is its floor.
\<close>

definition formatDuration :: "runtime \<Rightarrow> rat option \<Rightarrow> string" where
  "formatDuration rt minutes =
     (case minutes of
        None \<Rightarrow> ''N/A''
      | Some m \<Rightarrow>
          if m = 0 then ''N/A''
          else (let hours = \<lfloor>floatDiv rt m 60\<rfloor>;
                    mins = jsRemainder m 60
                in if hours > 0
                   then numberToString rt (of_int hours) @ ''h '' @ numberToString rt mins @ ''m''
                   else numberToString rt mins @ ''m''))"

text \<open>\<open>v ? new Date(v).toLocaleString() : 'N/A'\<close>\<close>

definition localeStringOrNA :: "runtime \<Rightarrow> jsval \<Rightarrow> jsval" where
  "localeStringOrNA rt v = JStr (if truthy v then localeString rt v else ''N/A'')"

definition coordinatesString :: "runtime \<Rightarrow> rat \<Rightarrow> rat \<Rightarrow> string" where
  "coordinatesString rt latitude longitude =
     numberToString rt latitude @ '', '' @ numberToString rt longitude"

definition ticketExportRow :: "runtime \<Rightarrow> route list \<Rightarrow> ticket \<Rightarrow> row" where
  "ticketExportRow rt routes t =
     [(''Ticket Number'', ticket_ticketNumber t),
      (''Route'', JStr (getRouteName routes (ticket_routeId t))),
      (''Link ID'', js_or (ticket_linkId t) (JStr ''N/A'')),
      (''Title'', JStr (ticket_title t)),
      (''Description'', ticket_description t),
      (''Priority'', ticket_priority t),
      (''Status'', JStr (ticket_status t)),
      (''Category'', ticket_category t),
      (''Reported By'', ticket_reportedBy t),
      (''Assigned To'', js_or (ticket_assignedTo t) (JStr ''Unassigned'')),
      (''Person Handling'', js_or (ticket_personHandling t) (JStr ''N/A'')),
      (''Impact'', ticket_impact t),
      (''Repair Type'', ticket_repairType t),
      (''Cores Spliced'', ticket_coresSpliced t),
      (''Root Cause'', ticket_rootCause t),
      (''Traffic Impacted'', ticket_trafficImpacted t),
      (''Location'', ticket_address t),
      (''Landmark'', js_or (ticket_landmark t) (JStr ''N/A'')),
      (''Coordinates'', JStr (coordinatesString rt (ticket_latitude t) (ticket_longitude t))),
      (''Created At'', JStr (localeString rt (ticket_createdAt t))),
      (''Updated At'', JStr (localeString rt (ticket_updatedAt t))),
      (''Resolved At'', localeStringOrNA rt (ticket_resolvedAt t)),
      (''Closed At'', localeStringOrNA rt (ticket_closedAt t)),
      (''Total Duration'', JStr (formatDuration rt (ticket_totalDuration t))),
      (''SLA Target (hours)'', js_or (ticket_slaTarget t) (JStr ''N/A'')),
      (''SLA Status'', js_or (ticket_slaStatus t) (JStr ''N/A'')),
      (''Activities Count'', JNum (of_nat (length (ticket_activities t)))),
      (''Materials Count'', JNum (of_nat (length (ticket_materialUsage t)))),
      (''Photos Count'', JNum (of_nat (length (ticket_photos t))))]"

definition materialExportRow :: "runtime \<Rightarrow> route list \<Rightarrow> ticket \<Rightarrow> material \<Rightarrow> row" where
  "materialExportRow rt routes t m =
     [(''Ticket Number'', ticket_ticketNumber t),
      (''Route'', JStr (getRouteName routes (ticket_routeId t))),
      (''Material Type'', mat_materialType m),
      (''Material Name'', mat_materialName m),
      (''Quantity'', mat_quantity m),
      (''Unit'', mat_unit m),
      (''Supplier'', js_or (mat_supplier m) (JStr ''N/A'')),
      (''Part Number'', js_or (mat_partNumber m) (JStr ''N/A'')),
      (''Used Date'', mat_usedDate m),
      (''Location'', js_or (mat_location m) (JStr ''N/A'')),
      (''Coordinates'',
         JStr (case mat_coordinates m of
                 Some (latitude, longitude) \<Rightarrow> coordinatesString rt latitude longitude
               | None \<Rightarrow> ''N/A'')),
      (''Notes'', js_or (mat_notes m) (JStr ''N/A''))]"

definition exportTroubleTicketsToXLSX ::
  "runtime \<Rightarrow> ticket list \<Rightarrow> route list \<Rightarrow> ExportOptions \<Rightarrow> File" where
  "exportTroubleTicketsToXLSX rt tickets routes options =
     (let filename = str_or (opt_filename options) ''trouble_tickets_export'';
          timestamp = timestampSuffix rt options;
          ticketsData = map (ticketExportRow rt routes) tickets;
          materialsData =
            concat (map (\<lambda>t. map (materialExportRow rt routes t) (ticket_materialUsage t)) tickets);
          wb = [(''Trouble Tickets'', json_to_sheet ticketsData)]
               @ (if length materialsData > 0
                  then [(''Material Usage'', json_to_sheet materialsData)] else [])
      in \<lparr>file_name = filename @ timestamp @ ''.xlsx'', file_content = XlsxContent wb\<rparr>)"

text \<open>
  The summaries of the reports count the records per status or type in an object.
  \<open>Object.entries\<close> lists the keys that are array indices (an integer up to \<open>2^32 - 2\<close>
  in its plain decimal writing) first, in ascending order, then the other keys in the
  order they were first stored.
\<close>

definition countInto :: "(string \<times> nat) list \<Rightarrow> string \<Rightarrow> (string \<times> nat) list" where
  "countInto acc k =
     (if k \<in> fst ` set acc
      then map (\<lambda>(k', n). if k' = k then (k', n + 1) else (k', n)) acc
      else acc @ [(k, 1)])"

definition isArrayIndex :: "string \<Rightarrow> bool" where
  "isArrayIndex k = (k = show_nat (digitsValue 10 k) \<and> digitsValue 10 k < 4294967295)"

definition objectEntries :: "(string \<times> nat) list \<Rightarrow> (string \<times> nat) list" where
  "objectEntries stored =
     sort_key (\<lambda>(k, n). digitsValue 10 k) (filter (\<lambda>(k, n). isArrayIndex k) stored)
     @ filter (\<lambda>(k, n). \<not> isArrayIndex k) stored"

definition countBy :: "string list \<Rightarrow> (string \<times> nat) list" where
  "countBy ks = objectEntries (foldl countInto [] ks)"

text \<open>
  The lines of a summary, one per entry from height 60 down in steps of 8, and the
  height the table starts at.
\<close>

definition summaryLines :: "(string \<times> nat) list \<Rightarrow> pdf_op list" where
  "summaryLines entries =
     map (\<lambda>(i, (k, n)). Text (k @ '': '' @ show_nat n) 30 (60 + 8 * of_nat i))
       (zip [0 ..< length entries] entries)"

definition summaryEnd :: "(string \<times> nat) list \<Rightarrow> rat" where
  "summaryEnd entries = 60 + 8 * of_nat (length entries) + 10"

text \<open>\<open>s.substring(0, n) + (s.length > n ? '...' : '')\<close>\<close>

definition truncateText :: "nat \<Rightarrow> string \<Rightarrow> string" where
  "truncateText n s = take n s @ (if length s > n then ''...'' else [])"

definition ticketPdfRow :: "runtime \<Rightarrow> route list \<Rightarrow> ticket \<Rightarrow> jsval list" where
  "ticketPdfRow rt routes t =
     [ticket_ticketNumber t,
      JStr (getRouteName routes (ticket_routeId t)),
      JStr (truncateText 30 (ticket_title t)),
      ticket_priority t,
      JStr (ticket_status t),
      ticket_impact t,
      JStr (localeDateString rt (ticket_createdAt t))]"

definition exportTroubleTicketsToPDF ::
  "runtime \<Rightarrow> ticket list \<Rightarrow> route list \<Rightarrow> ExportOptions \<Rightarrow> File" where
  "exportTroubleTicketsToPDF rt tickets routes options =
     (let filename = str_or (opt_filename options) ''trouble_tickets_export'';
          title = str_or (opt_title options) ''Trouble Tickets Report'';
          timestamp = timestampSuffix rt options;
          statusCounts = countBy (map ticket_status tickets);
          tableData = map (ticketPdfRow rt routes) tickets
      in \<lparr>file_name = filename @ timestamp @ ''.pdf'',
          file_content = PdfContent
            ([SetFontSize 20, Text title 20 20,
              SetFontSize 10, Text (''Generated on: '' @ nowLocaleString rt) 20 30,
              Text (''Total Tickets: '' @ show_nat (length tickets)) 20 40,
              Text ''Status Summary:'' 20 50]
             @ summaryLines statusCounts
             @ [AutoTable [''Ticket #'', ''Route'', ''Title'', ''Priority'', ''Status'',
                           ''Impact'', ''Created'']
                  tableData (summaryEnd statusCounts)])\<rparr>)"

section \<open>Network asset exports\<close>

record asset =
  asset_assetNumber :: jsval
  asset_name :: string
  asset_type :: string
  asset_routeId :: string
  asset_linkId :: jsval
  asset_condition :: jsval
  asset_status :: jsval
  asset_address :: jsval  \<comment> \<open>\<open>location.address\<close>\<close>
  asset_landmark :: jsval
  asset_longitude :: jsval
  asset_latitude :: jsval
  asset_elevation :: jsval
  asset_installationDate :: jsval
  asset_lastInspection :: jsval
  asset_nextInspection :: jsval
  asset_manufacturer :: jsval  \<comment> \<open>\<open>specifications.manufacturer\<close>\<close>
  asset_model :: jsval
  asset_serialNumber :: jsval
  asset_capacity :: jsval
  asset_material :: jsval
  asset_ipRating :: jsval
  asset_completeness :: "(string \<times> bool) list"
  asset_photos :: "jsval list"
  asset_maintenanceHistory :: "jsval list"
  asset_createdAt :: jsval
  asset_createdBy :: jsval
  asset_updatedAt :: jsval
  asset_lastModifiedBy :: jsval
  asset_notes :: jsval

text \<open>
  \<open>Math.round((completed / total) * 100)\<close>; a checklist with no entry divides zero by
  zero.
\<close>

definition calculateCompleteness :: "runtime \<Rightarrow> (string \<times> bool) list \<Rightarrow> jsval" where
  "calculateCompleteness rt completeness =
     (let total = length completeness;
          completed = length (filter snd completeness)
      in if total = 0 then JNaN
         else JNum (of_int \<lfloor>floatMul rt (floatDiv rt (of_nat completed) (of_nat total)) 100 + 1 / 2\<rfloor>))"

definition assetExportRow :: "runtime \<Rightarrow> route list \<Rightarrow> asset \<Rightarrow> row" where
  "assetExportRow rt routes a =
     [(''Asset Number'', asset_assetNumber a),
      (''Asset Name'', JStr (asset_name a)),
      (''Type'', JStr (asset_type a)),
      (''Route'', JStr (getRouteName routes (asset_routeId a))),
      (''Link ID'', js_or (asset_linkId a) (JStr ''N/A'')),
      (''Condition'', asset_condition a),
      (''Status'', asset_status a),
      (''Address'', asset_address a),
      (''Landmark'', js_or (asset_landmark a) (JStr ''N/A'')),
      (''Longitude'', asset_longitude a),
      (''Latitude'', asset_latitude a),
      (''Elevation (m)'', js_or (asset_elevation a) (JStr ''N/A'')),
      (''Installation Date'', asset_installationDate a),
      (''Last Inspection'', js_or (asset_lastInspection a) (JStr ''N/A'')),
      (''Next Inspection'', js_or (asset_nextInspection a) (JStr ''N/A'')),
      (''Manufacturer'', js_or (asset_manufacturer a) (JStr ''N/A'')),
      (''Model'', js_or (asset_model a) (JStr ''N/A'')),
      (''Serial Number'', js_or (asset_serialNumber a) (JStr ''N/A'')),
      (''Capacity'', js_or (asset_capacity a) (JStr ''N/A'')),
      (''Material'', js_or (asset_material a) (JStr ''N/A'')),
      (''IP Rating'', js_or (asset_ipRating a) (JStr ''N/A'')),
      (''Completeness (%)'', calculateCompleteness rt (asset_completeness a)),
      (''Photos Count'', JNum (of_nat (length (asset_photos a)))),
      (''Maintenance Records'', JNum (of_nat (length (asset_maintenanceHistory a)))),
      (''Created At'', JStr (localeString rt (asset_createdAt a))),
      (''Created By'', asset_createdBy a),
      (''Last Modified'', JStr (localeString rt (asset_updatedAt a))),
      (''Last Modified By'', asset_lastModifiedBy a),
      (''Notes'', js_or (asset_notes a) (JStr ''N/A''))]"

definition exportAssetsToXLSX ::
  "runtime \<Rightarrow> asset list \<Rightarrow> route list \<Rightarrow> ExportOptions \<Rightarrow> File" where
  "exportAssetsToXLSX rt assets routes options =
     (let filename = str_or (opt_filename options) ''network_assets_export'';
          timestamp = timestampSuffix rt options;
          assetsData = map (assetExportRow rt routes) assets
      in \<lparr>file_name = filename @ timestamp @ ''.xlsx'',
          file_content = XlsxContent [(''Network Assets'', json_to_sheet assetsData)]\<rparr>)"

definition assetPdfRow :: "runtime \<Rightarrow> route list \<Rightarrow> asset \<Rightarrow> jsval list" where
  "assetPdfRow rt routes a =
     [asset_assetNumber a,
      JStr (truncateText 20 (asset_name a)),
      JStr (asset_type a),
      JStr (getRouteName routes (asset_routeId a)),
      asset_condition a,
      asset_status a,
      JStr (localeDateString rt (asset_installationDate a))]"

definition exportAssetsToPDF ::
  "runtime \<Rightarrow> asset list \<Rightarrow> route list \<Rightarrow> ExportOptions \<Rightarrow> File" where
  "exportAssetsToPDF rt assets routes options =
     (let filename = str_or (opt_filename options) ''network_assets_export'';
          title = str_or (opt_title options) ''Network Assets Report'';
          timestamp = timestampSuffix rt options;
          typeCounts = countBy (map asset_type assets);
          tableData = map (assetPdfRow rt routes) assets
      in \<lparr>file_name = filename @ timestamp @ ''.pdf'',
          file_content = PdfContent
            ([SetFontSize 20, Text title 20 20,
              SetFontSize 10, Text (''Generated on: '' @ nowLocaleString rt) 20 30,
              Text (''Total Assets: '' @ show_nat (length assets)) 20 40,
              Text ''Asset Type Summary:'' 20 50]
             @ summaryLines typeCounts
             @ [AutoTable [''Asset #'', ''Name'', ''Type'', ''Route'', ''Condition'',
                           ''Status'', ''Installed'']
                  tableData (summaryEnd typeCounts)])\<rparr>)"

section \<open>Maintenance record exports\<close>

record maintenance =
  maint_id :: jsval
  maint_routeId :: string
  maint_type :: jsval
  maint_status :: string
  maint_title :: string
  maint_description :: jsval
  maint_priority :: jsval
  maint_scheduledDate :: jsval
  maint_completedDate :: jsval
  maint_technician :: jsval
  maint_duration :: jsval
  maint_notes :: jsval

definition maintenanceExportRow :: "route list \<Rightarrow> maintenance \<Rightarrow> row" where
  "maintenanceExportRow routes record =
     [(''Record ID'', maint_id record),
      (''Route'', JStr (getRouteName routes (maint_routeId record))),
      (''Type'', maint_type record),
      (''Status'', JStr (maint_status record)),
      (''Title'', JStr (maint_title record)),
      (''Description'', maint_description record),
      (''Priority'', maint_priority record),
      (''Scheduled Date'', maint_scheduledDate record),
      (''Completed Date'', js_or (maint_completedDate record) (JStr ''N/A'')),
      (''Technician'', maint_technician record),
      (''Duration (hours)'', js_or (maint_duration record) (JStr ''N/A'')),
      (''Notes'', js_or (maint_notes record) (JStr ''N/A''))]"

definition exportMaintenanceToXLSX ::
  "runtime \<Rightarrow> maintenance list \<Rightarrow> route list \<Rightarrow> ExportOptions \<Rightarrow> File" where
  "exportMaintenanceToXLSX rt records routes options =
     (let filename = str_or (opt_filename options) ''maintenance_records_export'';
          timestamp = timestampSuffix rt options;
          exportData = map (maintenanceExportRow routes) records
      in \<lparr>file_name = filename @ timestamp @ ''.xlsx'',
          file_content = XlsxContent [(''Maintenance Records'', json_to_sheet exportData)]\<rparr>)"

definition maintenancePdfRow :: "route list \<Rightarrow> maintenance \<Rightarrow> jsval list" where
  "maintenancePdfRow routes record =
     [JStr (getRouteName routes (maint_routeId record)),
      JStr (truncateText 25 (maint_title record)),
      maint_type record,
      JStr (maint_status record),
      maint_priority record,
      maint_technician record,
      maint_scheduledDate record]"

definition exportMaintenanceToPDF ::
  "runtime \<Rightarrow> maintenance list \<Rightarrow> route list \<Rightarrow> ExportOptions \<Rightarrow> File" where
  "exportMaintenanceToPDF rt records routes options =
     (let filename = str_or (opt_filename options) ''maintenance_records_export'';
          title = str_or (opt_title options) ''Maintenance Records Report'';
          timestamp = timestampSuffix rt options;
          statusCounts = countBy (map maint_status records);
          tableData = map (maintenancePdfRow routes) records
      in \<lparr>file_name = filename @ timestamp @ ''.pdf'',
          file_content = PdfContent
            ([SetFontSize 20, Text title 20 20,
              SetFontSize 10, Text (''Generated on: '' @ nowLocaleString rt) 20 30,
              Text (''Total Records: '' @ show_nat (length records)) 20 40,
              Text ''Status Summary:'' 20 50]
             @ summaryLines statusCounts
             @ [AutoTable [''Route'', ''Title'', ''Type'', ''Status'', ''Priority'',
                           ''Technician'', ''Scheduled'']
                  tableData (summaryEnd statusCounts)])\<rparr>)"

section \<open>Bulk export\<close>

datatype exportFormat = XLSX | CSV | PDF

text \<open>\<open>routes.find(r => r.id === routeId)?.name || 'Unknown'\<close>\<close>

definition bulkRouteName :: "route list \<Rightarrow> string \<Rightarrow> string" where
  "bulkRouteName routes routeId =
     (case find (\<lambda>r. route_id r = routeId) routes of
        Some route \<Rightarrow> if route_name route = [] then ''Unknown'' else route_name route
      | None \<Rightarrow> ''Unknown'')"

definition bulkAssetRow :: "route list \<Rightarrow> asset \<Rightarrow> row" where
  "bulkAssetRow routes a =
     [(''Asset Number'', asset_assetNumber a),
      (''Asset Name'', JStr (asset_name a)),
      (''Type'', JStr (asset_type a)),
      (''Route'', JStr (bulkRouteName routes (asset_routeId a))),
      (''Condition'', asset_condition a),
      (''Status'', asset_status a),
      (''Location'', asset_address a),
      (''Installation Date'', asset_installationDate a),
      (''Last Inspection'', js_or (asset_lastInspection a) (JStr ''N/A'')),
      (''Next Inspection'', js_or (asset_nextInspection a) (JStr ''N/A''))]"

definition bulkTicketRow :: "runtime \<Rightarrow> route list \<Rightarrow> ticket \<Rightarrow> row" where
  "bulkTicketRow rt routes t =
     [(''Ticket Number'', ticket_ticketNumber t),
      (''Route'', JStr (bulkRouteName routes (ticket_routeId t))),
      (''Title'', JStr (ticket_title t)),
      (''Priority'', ticket_priority t),
      (''Status'', JStr (ticket_status t)),
      (''Category'', ticket_category t),
      (''Impact'', ticket_impact t),
      (''Repair Type'', ticket_repairType t),
      (''Created At'', JStr (localeString rt (ticket_createdAt t))),
      (''Resolved At'', localeStringOrNA rt (ticket_resolvedAt t))]"

definition bulkMaintenanceRow :: "route list \<Rightarrow> maintenance \<Rightarrow> row" where
  "bulkMaintenanceRow routes record =
     [(''Route'', JStr (bulkRouteName routes (maint_routeId record))),
      (''Type'', maint_type record),
      (''Status'', JStr (maint_status record)),
      (''Title'', JStr (maint_title record)),
      (''Priority'', maint_priority record),
      (''Scheduled Date'', maint_scheduledDate record),
      (''Completed Date'', js_or (maint_completedDate record) (JStr ''N/A'')),
      (''Technician'', maint_technician record),
      (''Duration (hours)'', js_or (maint_duration record) (JStr ''N/A''))]"

definition bulkWorkbook ::
  "runtime \<Rightarrow> route list \<Rightarrow> ticket list \<Rightarrow> asset list \<Rightarrow> maintenance list \<Rightarrow> workbook" where
  "bulkWorkbook rt routes tickets assets maintenanceRecords =
     [(''Routes'', json_to_sheet (map (routeExportRow rt) routes))]
     @ (if length assets > 0
        then [(''Assets'', json_to_sheet (map (bulkAssetRow routes) assets))] else [])
     @ (if length tickets > 0
        then [(''Trouble Tickets'', json_to_sheet (map (bulkTicketRow rt routes) tickets))] else [])
     @ (if length maintenanceRecords > 0
        then [(''Maintenance'', json_to_sheet (map (bulkMaintenanceRow routes) maintenanceRecords))]
        else [])"

definition bulkRoutePdfRow :: "runtime \<Rightarrow> route \<Rightarrow> jsval list" where
  "bulkRoutePdfRow rt r =
     [JStr (route_name r),
      JStr (route_status r),
      JStr (numberToString rt (of_int (route_fiberCount r))),
      JStr (show_nat (length (route_links r))),
      JStr (numberToString rt (of_int (route_troubleTickets r)))]"

definition bulkTicketPdfRow :: "runtime \<Rightarrow> route list \<Rightarrow> ticket \<Rightarrow> jsval list" where
  "bulkTicketPdfRow rt routes t =
     [ticket_ticketNumber t,
      JStr (bulkRouteName routes (ticket_routeId t)),
      ticket_priority t,
      JStr (ticket_status t),
      JStr (localeDateString rt (ticket_createdAt t))]"

text \<open>
  The report of the bulk export. The height \<open>yPos\<close> is threaded through the three steps:
  the routes table, the page break, the tickets table.
\<close>

definition bulkReport ::
  "runtime \<Rightarrow> route list \<Rightarrow> ticket list \<Rightarrow> asset list \<Rightarrow> maintenance list \<Rightarrow> pdf_op list" where
  "bulkReport rt routes tickets assets maintenanceRecords =
     (let titleOps =
            [SetFontSize 20, Text ''FiberNet Complete Report'' 20 20,
             SetFontSize 10, Text (''Generated on: '' @ nowLocaleString rt) 20 30,
             Text (''Routes: '' @ show_nat (length routes)
                   @ '' | Tickets: '' @ show_nat (length tickets)
                   @ '' | Assets: '' @ show_nat (length assets)
                   @ '' | Maintenance: '' @ show_nat (length maintenanceRecords)) 20 40];
          yPos0 = (60 :: rat);
          routesHead = [''Route'', ''Status'', ''Fibers'', ''Links'', ''Tickets''];
          routesTableData = map (bulkRoutePdfRow rt) (take 10 routes);
          (routesOps, yPos1) =
            (if length routes > 0
             then ([SetFontSize 14, Text ''Routes Summary'' 20 yPos0,
                    AutoTable routesHead routesTableData (yPos0 + 15)],
                   tableFinalY rt routesHead routesTableData (yPos0 + 15) + 20)
             else ([], yPos0));
          (pageOps, yPos2) = (if yPos1 > 250 then ([AddPage], 20) else ([], yPos1));
          ticketsTableData = map (bulkTicketPdfRow rt routes) (take 10 tickets);
          ticketsOps =
            (if length tickets > 0
             then [SetFontSize 14, Text ''Recent Trouble Tickets'' 20 yPos2,
                   AutoTable [''Ticket #'', ''Route'', ''Priority'', ''Status'', ''Created'']
                     ticketsTableData (yPos2 + 15)]
             else [])
      in titleOps @ routesOps @ pageOps @ ticketsOps)"

text \<open>
  \<open>exportAllData\<close> writes a workbook or a report named after the day; asked for
  delimited text it does nothing at all.
\<close>

definition exportAllData ::
  "runtime \<Rightarrow> route list \<Rightarrow> ticket list \<Rightarrow> asset list \<Rightarrow> maintenance list \<Rightarrow> exportFormat
     \<Rightarrow> File option" where
  "exportAllData rt routes tickets assets maintenanceRecords format =
     (let timestamp = today rt
      in case format of
           XLSX \<Rightarrow>
             Some \<lparr>file_name = ''fibernet_complete_export_'' @ timestamp @ ''.xlsx'',
                   file_content =
                     XlsxContent (bulkWorkbook rt routes tickets assets maintenanceRecords)\<rparr>
         | PDF \<Rightarrow>
             Some \<lparr>file_name = ''fibernet_complete_export_'' @ timestamp @ ''.pdf'',
                   file_content =
                     PdfContent (bulkReport rt routes tickets assets maintenanceRecords)\<rparr>
         | CSV \<Rightarrow> None)"

section \<open>The export dialog\<close>

record exportData =
  data_routes :: "route list option"
  data_tickets :: "ticket list option"
  data_assets :: "asset list option"
  data_maintenance :: "maintenance list option"

definition getDataTypeLabel :: "dataType \<Rightarrow> string" where
  "getDataTypeLabel dt =
     (case dt of
        Routes \<Rightarrow> ''Routes''
      | Tickets \<Rightarrow> ''Trouble Tickets''
      | Assets \<Rightarrow> ''Network Assets''
      | Maintenance \<Rightarrow> ''Maintenance Records''
      | All \<Rightarrow> ''All Data'')"

text \<open>
  \<open>handleExport\<close>: the file the chosen export writes, or the error it raises. The
  options carry the check box and a title, never a file name.
\<close>

definition handleExport ::
  "runtime \<Rightarrow> dataType \<Rightarrow> exportFormat \<Rightarrow> bool \<Rightarrow> exportData \<Rightarrow> error + File option" where
  "handleExport rt dt selectedFormat includeTimestamp d =
     (let options = \<lparr>opt_filename = None,
                      opt_title = Some (getDataTypeLabel dt @ '' Report''),
                      opt_includeTimestamp = Some includeTimestamp\<rparr>
      in case dt of
           Routes \<Rightarrow>
             (case data_routes d of
                None \<Rightarrow> Inl MissingData
              | Some routes \<Rightarrow>
                  (case selectedFormat of
                     XLSX \<Rightarrow> Inr (Some (exportRoutesToXLSX rt routes options))
                   | CSV \<Rightarrow> Inr (Some (exportRoutesToCSV rt routes options))
                   | PDF \<Rightarrow> Inr (Some (exportRoutesToPDF rt routes options))))
         | Tickets \<Rightarrow>
             (case (data_tickets d, data_routes d) of
                (Some tickets, Some routes) \<Rightarrow>
                  (case selectedFormat of
                     XLSX \<Rightarrow> Inr (Some (exportTroubleTicketsToXLSX rt tickets routes options))
                   | PDF \<Rightarrow> Inr (Some (exportTroubleTicketsToPDF rt tickets routes options))
                   | CSV \<Rightarrow> Inl UnsupportedFormat)
              | _ \<Rightarrow> Inl MissingData)
         | Assets \<Rightarrow>
             (case (data_assets d, data_routes d) of
                (Some assets, Some routes) \<Rightarrow>
                  (case selectedFormat of
                     XLSX \<Rightarrow> Inr (Some (exportAssetsToXLSX rt assets routes options))
                   | PDF \<Rightarrow> Inr (Some (exportAssetsToPDF rt assets routes options))
                   | CSV \<Rightarrow> Inl UnsupportedFormat)
              | _ \<Rightarrow> Inl MissingData)
         | Maintenance \<Rightarrow>
             (case (data_maintenance d, data_routes d) of
                (Some records, Some routes) \<Rightarrow>
                  (case selectedFormat of
                     XLSX \<Rightarrow> Inr (Some (exportMaintenanceToXLSX rt records routes options))
                   | PDF \<Rightarrow> Inr (Some (exportMaintenanceToPDF rt records routes options))
                   | CSV \<Rightarrow> Inl UnsupportedFormat)
              | _ \<Rightarrow> Inl MissingData)
         | All \<Rightarrow>
             (case (data_routes d, data_tickets d, data_assets d, data_maintenance d) of
                (Some routes, Some tickets, Some assets, Some records) \<Rightarrow>
                  Inr (exportAllData rt routes tickets assets records selectedFormat)
              | _ \<Rightarrow> Inl MissingData))"

section \<open>Reading an exported file\<close>

text \<open>The names of the sheets of a workbook file, in order.\<close>

definition sheetNames :: "File \<Rightarrow> string list" where
  "sheetNames f = (case file_content f of XlsxContent wb \<Rightarrow> map fst wb | _ \<Rightarrow> [])"

text \<open>The tables of a report file, in order: the header and the body of each.\<close>

fun tablesOf :: "pdf_op list \<Rightarrow> (string list \<times> jsval list list) list" where
  "tablesOf [] = []"
| "tablesOf (AutoTable h b y # ops) = (h, b) # tablesOf ops"
| "tablesOf (_ # ops) = tablesOf ops"

definition reportTables :: "File \<Rightarrow> (string list \<times> jsval list list) list" where
  "reportTables f = (case file_content f of PdfContent ops \<Rightarrow> tablesOf ops | _ \<Rightarrow> [])"

text \<open>The rows \<open>sheet_to_json\<close> reads from the sheet of a given name.\<close>

definition sheetRows :: "File \<Rightarrow> string \<Rightarrow> row list" where
  "sheetRows f name =
     (case file_content f of
        XlsxContent wb \<Rightarrow> (case map_of wb name of Some ws \<Rightarrow> sheet_to_json ws | None \<Rightarrow> [])
      | _ \<Rightarrow> [])"

text \<open>
  The imported records carry the name, status, fiber count and locations of the routes,
  one record per route in order, and no links.
\<close>

definition sameRoutes :: "route list \<Rightarrow> importedRoute list \<Rightarrow> bool" where
  "sameRoutes routes imported =
     (map imp_name imported = map (\<lambda>r. JStr (route_name r)) routes
      \<and> map imp_status imported = map (\<lambda>r. JStr (route_status r)) routes
      \<and> map imp_fiberCount imported = map route_fiberCount routes
      \<and> map imp_start imported = map (\<lambda>r. JStr (route_start r)) routes
      \<and> map imp_end imported = map (\<lambda>r. JStr (route_end r)) routes
      \<and> map imp_links imported = map (\<lambda>r. []) routes)"

text \<open>The keys of the flattened route object, and the object parsed from its line of text.\<close>

definition routeKeys :: "string list" where
  "routeKeys = [''Route ID'', ''Route Name'', ''Status'', ''Start Location'', ''End Location'',
     ''Fiber Count'', ''Total Links'', ''Total Length (km)'', ''Average Loss (dB)'',
     ''Trouble Tickets'', ''Handhole Count'', ''ODC Count'', ''Pole Count'', ''JC Count'',
     ''Last Maintenance'', ''Next Maintenance'']"

definition csvRow :: "runtime \<Rightarrow> route \<Rightarrow> row" where
  "csvRow rt r = zip routeKeys
     (map JStr (map (\<lambda>k. csvField rt (row_get (routeExportRow rt r) k)) routeKeys))"

text \<open>
  The field resolution policy, written out: the value under the column label when it is
  truthy, otherwise the value under the fallback key when that one is truthy, otherwise
  the default. For a count, the value taken is read by \<open>parseInt\<close>.
\<close>

definition resolveField :: "row \<Rightarrow> string \<Rightarrow> string \<Rightarrow> jsval \<Rightarrow> jsval" where
  "resolveField r label fallback dflt =
     (if truthy (row_get r label) then row_get r label
      else if truthy (row_get r fallback) then row_get r fallback
      else dflt)"

definition resolveCount :: "runtime \<Rightarrow> row \<Rightarrow> string \<Rightarrow> string \<Rightarrow> int" where
  "resolveCount rt r label fallback =
     (if truthy (row_get r label) then parseIntOr0 rt (row_get r label)
      else if truthy (row_get r fallback) then parseIntOr0 rt (row_get r fallback)
      else 0)"

section \<open>Sample data\<close>

text \<open>
  An environment for the samples: a day in July, arithmetic without rounding (the samples
  compute with small integers, where the doubles do not round either), and an engine
  that is only ever asked to print \<open>10^21\<close>, which JavaScript writes \<open>1e+21\<close>.
\<close>

definition sampleRuntime :: runtime where
  "sampleRuntime =
     \<lparr>today = ''2025-07-08'',
      nowLocaleString = ''7/8/2025, 9:00:00 AM'',
      localeString = (\<lambda>_. ''7/1/2025, 8:00:00 AM''),
      localeDateString = (\<lambda>_. ''7/8/2025''),
      floatAdd = (+), floatMul = (*), floatDiv = (/),
      engineString = (\<lambda>_. ''1e+21''),
      tableFinalY = (\<lambda>h b y. y + 10 * of_nat (Suc (length b))),
      foreignWorkbook = (\<lambda>_. None),
      foreignCsv = (\<lambda>_. None)\<rparr>"

definition sampleRoute :: route where
  "sampleRoute =
     \<lparr>route_id = ''route-1'', route_name = ''Segment A'', route_status = ''operational'',
      route_start = ''Node1'', route_end = ''Node2'', route_fiberCount = 48,
      route_links = [], route_troubleTickets = 2, route_handhole = 3, route_odc = 1,
      route_pole = 12, route_jc = 4, route_lastMaintenance = ''2025-01-10'',
      route_nextMaintenance = ''2025-09-10''\<rparr>"

text \<open>A route nobody named.\<close>

definition unnamedRoute :: route where
  "unnamedRoute = sampleRoute\<lparr>route_id := ''route-2'', route_name := []\<rparr>"

text \<open>A route with a fiber count of \<open>10^21\<close>.\<close>

definition hugeRoute :: route where
  "hugeRoute = sampleRoute\<lparr>route_id := ''route-3'', route_fiberCount := 10 ^ 21\<rparr>"

text \<open>A ticket on a route that is not in the list, with a total duration of zero minutes.\<close>

definition sampleTicket :: ticket where
  "sampleTicket =
     \<lparr>ticket_ticketNumber = JStr ''TT-001'', ticket_routeId = ''route-9'',
      ticket_linkId = Undefined, ticket_title = ''Fiber cut'',
      ticket_description = JStr ''Cable damaged by excavation'',
      ticket_priority = JStr ''high'', ticket_status = ''open'',
      ticket_category = JStr ''fiber-cut'', ticket_reportedBy = JStr ''NOC'',
      ticket_assignedTo = Undefined, ticket_personHandling = Undefined,
      ticket_impact = JStr ''high'', ticket_repairType = JStr ''permanent'',
      ticket_coresSpliced = JNum 0, ticket_rootCause = JStr ''excavation'',
      ticket_trafficImpacted = JNum 0, ticket_address = JStr ''Main Street'',
      ticket_landmark = Undefined, ticket_latitude = 6, ticket_longitude = 106,
      ticket_createdAt = JStr ''2025-07-01T08:00:00Z'',
      ticket_updatedAt = JStr ''2025-07-01T08:00:00Z'',
      ticket_resolvedAt = Undefined, ticket_closedAt = Undefined,
      ticket_totalDuration = Some 0, ticket_slaTarget = Undefined,
      ticket_slaStatus = Undefined, ticket_activities = [], ticket_materialUsage = [],
      ticket_photos = []\<rparr>"

definition sampleMaterial :: material where
  "sampleMaterial =
     \<lparr>mat_materialType = JStr ''closure'', mat_materialName = JStr ''Joint closure 24'',
      mat_quantity = JNum 1, mat_unit = JStr ''pcs'', mat_supplier = Undefined,
      mat_partNumber = Undefined, mat_usedDate = JStr ''2025-07-01'',
      mat_location = Undefined, mat_coordinates = None, mat_notes = Undefined\<rparr>"

definition repairedTicket :: ticket where
  "repairedTicket =
     sampleTicket\<lparr>ticket_ticketNumber := JStr ''TT-002'', ticket_totalDuration := Some 135,
       ticket_materialUsage := [sampleMaterial]\<rparr>"

text \<open>A ticket whose total duration is an hour and a half below zero.\<close>

definition negativeTicket :: ticket where
  "negativeTicket = sampleTicket\<lparr>ticket_ticketNumber := JStr ''TT-003'',
     ticket_totalDuration := Some (- 90)\<rparr>"

definition sampleOptions :: ExportOptions where
  "sampleOptions = \<lparr>opt_filename = None, opt_title = None, opt_includeTimestamp = Some True\<rparr>"

definition sampleAsset :: asset where
  "sampleAsset =
     \<lparr>asset_assetNumber = JStr ''HH-001'', asset_name = ''Handhole 1'',
      asset_type = ''handhole'', asset_routeId = ''route-9'', asset_linkId = Undefined,
      asset_condition = JStr ''good'', asset_status = JStr ''active'',
      asset_address = JStr ''Main Street'', asset_landmark = Undefined,
      asset_longitude = JNum 106, asset_latitude = JNum 6, asset_elevation = Undefined,
      asset_installationDate = JStr ''2024-01-01'', asset_lastInspection = Undefined,
      asset_nextInspection = Undefined, asset_manufacturer = Undefined,
      asset_model = Undefined, asset_serialNumber = Undefined, asset_capacity = Undefined,
      asset_material = Undefined, asset_ipRating = Undefined,
      asset_completeness = [(''photos'', True), (''location'', False)],
      asset_photos = [], asset_maintenanceHistory = [],
      asset_createdAt = JStr ''2024-01-01'', asset_createdBy = JStr ''admin'',
      asset_updatedAt = JStr ''2024-01-01'', asset_lastModifiedBy = JStr ''admin'',
      asset_notes = Undefined\<rparr>"

definition sampleMaintenance :: maintenance where
  "sampleMaintenance =
     \<lparr>maint_id = JStr ''m-1'', maint_routeId = ''route-9'', maint_type = JStr ''preventive'',
      maint_status = ''scheduled'', maint_title = ''Inspection'',
      maint_description = JStr ''Quarterly inspection'', maint_priority = JStr ''low'',
      maint_scheduledDate = JStr ''2025-08-01'', maint_completedDate = Undefined,
      maint_technician = JStr ''Team A'', maint_duration = Undefined,
      maint_notes = Undefined\<rparr>"

definition sampleData :: exportData where
  "sampleData =
     \<lparr>data_routes = Some [sampleRoute], data_tickets = Some [sampleTicket],
      data_assets = Some [sampleAsset], data_maintenance = Some [sampleMaintenance]\<rparr>"

definition emptyData :: exportData where
  "emptyData =
     \<lparr>data_routes = Some [], data_tickets = Some [], data_assets = Some [],
      data_maintenance = Some []\<rparr>"

text \<open>
  The delimited-text file of the specification's scenario: the header and two rows, the
  second with a blank name.
\<close>

definition scenarioFile :: File where
  "scenarioFile =
     \<lparr>file_name = ''routes.csv'',
      file_content = CsvContent
        [[''Route Name'', ''Status'', ''Start Location'', ''End Location''],
         [''Segment A'', ''operational'', ''Node1'', ''Node2''],
         [[], ''critical'', ''X'', ''Y'']]\<rparr>"

text \<open>
  A workbook and a delimited-text file with the same table: one row that has a status
  and locations but no name.
\<close>

definition namelessSheet :: worksheet where
  "namelessSheet =
     \<lparr>header = [''Route Name'', ''Status'', ''Start Location'', ''End Location''],
      cells = [[Undefined, JStr ''critical'', JStr ''X'', JStr ''Y'']],
      cols = []\<rparr>"

definition namelessWorkbook :: File where
  "namelessWorkbook =
     \<lparr>file_name = ''routes.xlsx'', file_content = XlsxContent [(''Routes'', namelessSheet)]\<rparr>"

definition namelessCsv :: File where
  "namelessCsv =
     \<lparr>file_name = ''routes.csv'',
      file_content = CsvContent
        [[''Route Name'', ''Status'', ''Start Location'', ''End Location''],
         [[], ''critical'', ''X'', ''Y'']]\<rparr>"

text \<open>
  A workbook with a column under the label of the fiber count and another under its
  fallback key: the first holds the number zero, the second seven.
\<close>

definition zeroCountWorkbook :: File where
  "zeroCountWorkbook =
     \<lparr>file_name = ''routes.xlsx'',
      file_content = XlsxContent
        [(''Routes'',
          \<lparr>header = [''Route Name'', ''Fiber Count'', ''fiberCount''],
           cells = [[JStr ''Ring 1'', JNum 0, JNum 7]],
           cols = []\<rparr>)]\<rparr>"

section \<open>Numbers written and read back\<close>

lemma toFixed1_zero: "toFixed1 rt 0 = ''0.0''"
  by (simp add: toFixed1_def show_nat.simps digit_char_def)

lemma digitValue_digit_char: "d < 10 \<Longrightarrow> digitValue (digit_char d) = Some d"
  by (auto simp: eval_nat_numeral less_Suc_eq digitValue_def digit_char_def)

lemma isDigit_digit_char: "d < 10 \<Longrightarrow> isDigit 10 (digit_char d)"
  by (simp add: isDigit_def digitValue_digit_char)

lemma show_nat_digits: "\<forall>c \<in> set (show_nat n). isDigit 10 c"
proof (induction n rule: show_nat.induct)
  case (1 n)
  show ?case
  proof (cases "n < 10")
    case True
    then show ?thesis by (simp add: show_nat.simps[of n] isDigit_digit_char)
  next
    case False
    with 1 show ?thesis by (simp add: show_nat.simps[of n] isDigit_digit_char)
  qed
qed

lemma show_nat_nonempty: "show_nat n \<noteq> []"
  by (subst show_nat.simps) simp

lemma show_int_nonempty: "show_int i \<noteq> []"
  by (simp add: show_int_def show_nat_nonempty)

lemma digitsValue_snoc:
  "digitsValue r (ds @ [c]) = digitsValue r ds * r + (case digitValue c of None \<Rightarrow> 0 | Some d \<Rightarrow> d)"
  by (simp add: digitsValue_def)

lemma digitsValue_show_nat: "digitsValue 10 (show_nat n) = n"
proof (induction n rule: show_nat.induct)
  case (1 n)
  show ?case
  proof (cases "n < 10")
    case True
    then show ?thesis
      by (simp add: show_nat.simps[of n] digitsValue_def digitValue_digit_char)
  next
    case False
    with 1 show ?thesis
      by (simp add: show_nat.simps[of n] digitsValue_snoc digitValue_digit_char)
  qed
qed

lemma parseDigits_show_nat: "parseDigits 10 (show_nat n) = Some n"
proof -
  have tw: "takeWhile (isDigit 10) (show_nat n) = show_nat n"
    using show_nat_digits by (simp add: takeWhile_eq_all_conv)
  show ?thesis
    unfolding parseDigits_def Let_def tw
    by (simp add: show_nat_nonempty digitsValue_show_nat)
qed

lemma isDigit_facts:
  "isDigit 10 c \<Longrightarrow>
     \<not> isWhiteSpace c \<and> c \<noteq> CHR ''-'' \<and> c \<noteq> CHR ''+'' \<and> c \<noteq> CHR ''x'' \<and> c \<noteq> CHR ''X''"
  by (auto simp: isDigit_def digitValue_def isWhiteSpace_def split: if_splits)

lemma show_nat_shape:
  obtains c cs where "show_nat n = c # cs" "isDigit 10 c" "\<forall>d \<in> set cs. isDigit 10 d"
proof -
  obtain c cs where eq: "show_nat n = c # cs"
    using show_nat_nonempty by (cases "show_nat n") auto
  with show_nat_digits[of n] have "isDigit 10 c" "\<forall>d \<in> set cs. isDigit 10 d" by auto
  with eq that show thesis by blast
qed

lemma parseIntString_show_nat: "parseIntString (show_nat n) = Some (int n)"
proof -
  obtain c cs where eq: "show_nat n = c # cs" and c: "isDigit 10 c"
    and cs: "\<forall>d \<in> set cs. isDigit 10 d"
    by (rule show_nat_shape)
  have nothex: "take (Suc 0) cs \<noteq> ''x''" "take (Suc 0) cs \<noteq> ''X''"
    using cs isDigit_facts by (cases cs; auto)+
  from c isDigit_facts have c': "\<not> isWhiteSpace c" "c \<noteq> CHR ''-''" "c \<noteq> CHR ''+''" by auto
  have pd: "parseDigits 10 (c # cs) = Some n"
    using parseDigits_show_nat[of n] eq by simp
  show ?thesis
    unfolding parseIntString_def eq Let_def using c' nothex pd by simp
qed

lemma parseIntString_neg_show_nat:
  "parseIntString (CHR ''-'' # show_nat n) = Some (- int n)"
proof -
  obtain c cs where eq: "show_nat n = c # cs" and c: "isDigit 10 c"
    and cs: "\<forall>d \<in> set cs. isDigit 10 d"
    by (rule show_nat_shape)
  have nothex: "take (Suc 0) cs \<noteq> ''x''" "take (Suc 0) cs \<noteq> ''X''"
    using cs isDigit_facts by (cases cs; auto)+
  have ws: "\<not> isWhiteSpace CHR ''-''" by (simp add: isWhiteSpace_def)
  have pd: "parseDigits 10 (c # cs) = Some n"
    using parseDigits_show_nat[of n] eq by simp
  show ?thesis
    unfolding parseIntString_def eq Let_def using ws nothex pd by simp
qed

lemma parseIntString_show_int: "parseIntString (show_int i) = Some i"
  by (simp add: show_int_def parseIntString_show_nat parseIntString_neg_show_nat)

lemma parseIntString_undefined: "parseIntString ''undefined'' = None"
  by (simp add: parseIntString_def parseDigits_def isWhiteSpace_def isDigit_def digitValue_def)

lemma parseIntString_exponent: "parseIntString ''1e+21'' = Some 1"
  by (simp add: parseIntString_def parseDigits_def isWhiteSpace_def isDigit_def digitValue_def
      digitsValue_def)

lemma numberToString_int:
  "\<bar>n\<bar> \<le> maxSafeInteger \<Longrightarrow> numberToString rt (of_int n) = show_int n"
proof -
  assume "\<bar>n\<bar> \<le> maxSafeInteger"
  then have "\<bar>of_int n :: rat\<bar> \<le> of_int maxSafeInteger"
    by (metis of_int_abs of_int_le_iff)
  then show ?thesis
    by (simp add: numberToString_def)
qed

lemma numberToString_small:
  "numberToString rt 0 = ''0''" "numberToString rt 2 = ''2''" "numberToString rt 15 = ''15''"
  "numberToString rt (- 30) = ''-30''"
  using numberToString_int [of 0 rt] numberToString_int [of 2 rt] numberToString_int [of 15 rt]
    numberToString_int [of "- 30" rt]
  by (simp_all add: maxSafeInteger_def show_int_def show_nat.simps digit_char_def)

lemma parseIntOr0_number:
  "\<bar>n\<bar> \<le> maxSafeInteger \<Longrightarrow> parseIntOr0 rt (JNum (of_int n)) = n"
  by (simp add: parseIntOr0_def parseInt_def numberToString_int parseIntString_show_int)

lemma parseIntOr0_text: "parseIntOr0 rt (JStr (show_int n)) = n"
  by (simp add: parseIntOr0_def parseInt_def parseIntString_show_int)

lemma parseIntOr0_undefined: "parseIntOr0 rt Undefined = 0"
  by (simp add: parseIntOr0_def parseInt_def parseIntString_undefined)

lemma parseIntOr0_falsy: "\<not> truthy v \<Longrightarrow> parseIntOr0 rt v = 0"
  by (cases v)
     (auto simp: parseIntOr0_def parseInt_def parseIntString_def parseDigits_def
       numberToString_small show_int_def show_nat.simps digit_char_def
       isWhiteSpace_def isDigit_def digitValue_def digitsValue_def Let_def)

section \<open>Aggregates of a route without links\<close>

text \<open>
  Claim C3. For every route whose links collection is empty, the route export projection
  gives the literal string "0" for 'Average Loss (dB)' and the literal string "0.0" for
  'Total Length (km)': in the flattened object of the workbook, the delimited-text and
  the bulk exports, and in the row of the report's table (columns 'Avg Loss (dB)' and
  'Length (km)'). Neither is NaN or the empty string.
\<close>

theorem empty_links_aggregates:
  assumes "route_links r = []"
  shows "row_get (routeExportRow rt r) ''Average Loss (dB)'' = JStr ''0''
       \<and> row_get (routeExportRow rt r) ''Total Length (km)'' = JStr ''0.0''
       \<and> routePdfRow rt r ! 6 = JStr ''0''
       \<and> routePdfRow rt r ! 5 = JStr ''0.0''"
  using assms
  by (simp add: routeExportRow_def routePdfRow_def row_get_def averageLoss_def
      totalLength_def toFixed1_zero)

theorem empty_links_aggregates_witness:
  "route_links sampleRoute = []
   \<and> row_get (routeExportRow sampleRuntime sampleRoute) ''Average Loss (dB)'' = JStr ''0''
   \<and> row_get (routeExportRow sampleRuntime sampleRoute) ''Total Length (km)'' = JStr ''0.0''
   \<and> routePdfRow sampleRuntime sampleRoute ! 6 = JStr ''0''
   \<and> routePdfRow sampleRuntime sampleRoute ! 5 = JStr ''0.0''"
proof -
  have h: "route_links sampleRoute = []" by (simp add: sampleRoute_def)
  show ?thesis using h empty_links_aggregates [OF h] by simp
qed

section \<open>The duration column of the ticket export\<close>

lemma jsRemainder_sign:
  "jsRemainder m 60 = sgn m * (\<bar>m\<bar> - 60 * of_int \<lfloor>\<bar>m\<bar> / 60\<rfloor>)"
proof (cases "m < 0")
  case True
  then have "m / 60 < 0" by simp
  moreover have "\<lceil>m / 60\<rceil> = - \<lfloor>- m / 60\<rfloor>"
    by (simp add: ceiling_def)
  ultimately show ?thesis
    using True by (simp add: jsRemainder_def sgn_if algebra_simps)
next
  case False
  then have "\<not> m / 60 < 0" by simp
  then show ?thesis
    using False by (simp add: jsRemainder_def sgn_if)
qed

text \<open>
  Claim C9, as the code has it. For every ticket whose total duration is present as a
  number of minutes \<open>m\<close> other than zero, the 'Total Duration' column of the ticket export
  is "<h>h <r>m" when \<open>m\<close> is at least 60 and "<r>m" otherwise, where \<open>h = floor(m / 60)\<close>,
  provided the floating-point quotient \<open>m / 60\<close> has that floor, and the minute part \<open>r\<close>
  is the remainder \<open>m % 60\<close>: \<open>m mod 60\<close> for a positive \<open>m\<close>, and the same of the
  magnitude with the sign of \<open>m\<close> for a negative one. Both numbers are written as
  JavaScript prints them. A duration of zero minutes is rendered as 'N/A', like an absent
  one.
\<close>

theorem total_duration_rendering:
  assumes "ticket_totalDuration t = Some m" and "m \<noteq> 0"
    and "\<lfloor>floatDiv rt m 60\<rfloor> = \<lfloor>m / 60\<rfloor>"
  shows "row_get (ticketExportRow rt routes t) ''Total Duration'' =
           JStr (if 60 \<le> m
                 then numberToString rt (of_int \<lfloor>m / 60\<rfloor>) @ ''h ''
                      @ numberToString rt (jsRemainder m 60) @ ''m''
                 else numberToString rt (jsRemainder m 60) @ ''m'')
       \<and> jsRemainder m 60 = sgn m * (\<bar>m\<bar> - 60 * of_int \<lfloor>\<bar>m\<bar> / 60\<rfloor>)
       \<and> row_get (ticketExportRow rt routes (t\<lparr>ticket_totalDuration := Some 0\<rparr>))
            ''Total Duration'' = JStr ''N/A''"
proof -
  have cell: "row_get (ticketExportRow rt routes t) ''Total Duration''
      = JStr (formatDuration rt (Some m))"
    using assms(1) by (simp add: ticketExportRow_def row_get_def)
  have hours: "(0 < \<lfloor>m / 60\<rfloor>) = (60 \<le> m)"
    by (simp add: zero_less_floor)
  have main: "formatDuration rt (Some m) =
      (if 60 \<le> m
       then numberToString rt (of_int \<lfloor>m / 60\<rfloor>) @ ''h ''
            @ numberToString rt (jsRemainder m 60) @ ''m''
       else numberToString rt (jsRemainder m 60) @ ''m'')"
    unfolding formatDuration_def
    using assms(2) hours by (simp add: Let_def assms(3))
  have zero: "row_get (ticketExportRow rt routes (t\<lparr>ticket_totalDuration := Some 0\<rparr>))
      ''Total Duration'' = JStr ''N/A''"
    by (simp add: ticketExportRow_def row_get_def formatDuration_def)
  from cell main zero jsRemainder_sign [of m] show ?thesis by simp
qed

text \<open>Two hours and a quarter; an hour and a half below zero.\<close>

theorem total_duration_rendering_witness:
  "ticket_totalDuration repairedTicket = Some 135
   \<and> row_get (ticketExportRow sampleRuntime [sampleRoute] repairedTicket) ''Total Duration''
       = JStr ''2h 15m''
   \<and> ticket_totalDuration negativeTicket = Some (- 90)
   \<and> row_get (ticketExportRow sampleRuntime [sampleRoute] negativeTicket) ''Total Duration''
       = JStr ''-30m''"
proof -
  have h1: "ticket_totalDuration repairedTicket = Some 135"
    by (simp add: repairedTicket_def)
  have h2: "ticket_totalDuration negativeTicket = Some (- 90)"
    by (simp add: negativeTicket_def)
  have n1: "(135::rat) \<noteq> 0" and n2: "(- 90::rat) \<noteq> 0" by simp_all
  have q1: "\<lfloor>floatDiv sampleRuntime 135 60\<rfloor> = \<lfloor>135 / 60 :: rat\<rfloor>"
    and q2: "\<lfloor>floatDiv sampleRuntime (- 90) 60\<rfloor> = \<lfloor>- 90 / 60 :: rat\<rfloor>"
    by (simp_all add: sampleRuntime_def)
  have fl: "\<lfloor>9 / 4 :: rat\<rfloor> = 2"
    by (rule floor_unique) simp_all
  have cl: "\<lceil>- (3 / 2) :: rat\<rceil> = - 1"
    by (rule ceiling_unique) simp_all
  have r1: "jsRemainder 135 60 = 15" and r2: "jsRemainder (- 90) 60 = - 30"
    by (simp_all add: jsRemainder_def fl cl)
  have f1: "\<lfloor>135 / 60 :: rat\<rfloor> = 2"
    using fl by simp
  show ?thesis
    using h1 h2
      total_duration_rendering [OF h1 n1 q1, of "[sampleRoute]"]
      total_duration_rendering [OF h2 n2 q2, of "[sampleRoute]"]
    by (simp add: r1 r2 f1 numberToString_small)
qed

text \<open>
  The claim as stated asks for "0m" when the duration is zero minutes; the export writes
  'N/A'.
\<close>

theorem total_duration_counterexample:
  "ticket_totalDuration sampleTicket = Some 0
   \<and> row_get (ticketExportRow sampleRuntime [sampleRoute] sampleTicket) ''Total Duration''
       = JStr ''N/A''
   \<and> row_get (ticketExportRow sampleRuntime [sampleRoute] sampleTicket) ''Total Duration''
       \<noteq> JStr ''0m''"
  by (simp add: ticketExportRow_def row_get_def formatDuration_def sampleTicket_def)

section \<open>The sheets of the ticket workbook\<close>

text \<open>
  Claim C10. For every ticket workbook export, the workbook has the second sheet
  'Material Usage' if and only if at least one input ticket has a non-empty material-usage
  collection; when every ticket's collection is empty, the workbook has only the sheet
  'Trouble Tickets'.
\<close>

theorem material_usage_sheet:
  "sheetNames (exportTroubleTicketsToXLSX rt tickets routes options) =
     (if \<exists>t \<in> set tickets. ticket_materialUsage t \<noteq> []
      then [''Trouble Tickets'', ''Material Usage''] else [''Trouble Tickets''])"
  by (auto simp: sheetNames_def exportTroubleTicketsToXLSX_def Let_def)

theorem material_usage_sheet_witness:
  "sheetNames (exportTroubleTicketsToXLSX sampleRuntime [sampleTicket, repairedTicket]
       [sampleRoute] sampleOptions) = [''Trouble Tickets'', ''Material Usage'']
   \<and> sheetNames (exportTroubleTicketsToXLSX sampleRuntime [sampleTicket]
       [sampleRoute] sampleOptions) = [''Trouble Tickets'']"
  using material_usage_sheet [of sampleRuntime "[sampleTicket, repairedTicket]" "[sampleRoute]" sampleOptions]
    material_usage_sheet [of sampleRuntime "[sampleTicket]" "[sampleRoute]" sampleOptions]
  by (simp add: sampleTicket_def repairedTicket_def)

section \<open>File names\<close>

text \<open>
  Claim C6, as the code has it. For every export of a single record kind, the output file
  name is the chosen base name, or the default one when none (or an empty one) is chosen,
  followed by the extension, with the ISO date appended after an underscore if and only
  if the option includeTimestamp is true. The bulk export takes no options: its file is
  always named \<open>fibernet_complete_export_<ISO date>\<close> plus the extension, whatever the
  dialog's check box says.
\<close>

theorem export_file_names:
  "file_name (exportRoutesToXLSX rt routes options) =
     str_or (opt_filename options) ''routes_export'' @ timestampSuffix rt options @ ''.xlsx''
   \<and> file_name (exportRoutesToCSV rt routes options) =
     str_or (opt_filename options) ''routes_export'' @ timestampSuffix rt options @ ''.csv''
   \<and> file_name (exportRoutesToPDF rt routes options) =
     str_or (opt_filename options) ''routes_export'' @ timestampSuffix rt options @ ''.pdf''
   \<and> file_name (exportTroubleTicketsToXLSX rt tickets routes options) =
     str_or (opt_filename options) ''trouble_tickets_export'' @ timestampSuffix rt options @ ''.xlsx''
   \<and> file_name (exportTroubleTicketsToPDF rt tickets routes options) =
     str_or (opt_filename options) ''trouble_tickets_export'' @ timestampSuffix rt options @ ''.pdf''
   \<and> file_name (exportAssetsToXLSX rt assets routes options) =
     str_or (opt_filename options) ''network_assets_export'' @ timestampSuffix rt options @ ''.xlsx''
   \<and> file_name (exportAssetsToPDF rt assets routes options) =
     str_or (opt_filename options) ''network_assets_export'' @ timestampSuffix rt options @ ''.pdf''
   \<and> file_name (exportMaintenanceToXLSX rt records routes options) =
     str_or (opt_filename options) ''maintenance_records_export'' @ timestampSuffix rt options @ ''.xlsx''
   \<and> file_name (exportMaintenanceToPDF rt records routes options) =
     str_or (opt_filename options) ''maintenance_records_export'' @ timestampSuffix rt options @ ''.pdf''
   \<and> timestampSuffix rt options =
     (if opt_includeTimestamp options = Some True then ''_'' @ today rt else [])
   \<and> map_sum id (map_option file_name)
       (handleExport rt All XLSX includeTimestamp
          \<lparr>data_routes = Some routes, data_tickets = Some tickets,
           data_assets = Some assets, data_maintenance = Some records\<rparr>) =
     Inr (Some (''fibernet_complete_export_'' @ today rt @ ''.xlsx''))
   \<and> map_sum id (map_option file_name)
       (handleExport rt All PDF includeTimestamp
          \<lparr>data_routes = Some routes, data_tickets = Some tickets,
           data_assets = Some assets, data_maintenance = Some records\<rparr>) =
     Inr (Some (''fibernet_complete_export_'' @ today rt @ ''.pdf''))"
  by (simp add: exportRoutesToXLSX_def exportRoutesToCSV_def exportRoutesToPDF_def
      exportTroubleTicketsToXLSX_def exportTroubleTicketsToPDF_def exportAssetsToXLSX_def
      exportAssetsToPDF_def exportMaintenanceToXLSX_def exportMaintenanceToPDF_def
      handleExport_def exportAllData_def timestampSuffix_def Let_def)

theorem export_file_names_witness:
  "file_name (exportRoutesToCSV sampleRuntime [sampleRoute] sampleOptions) =
     ''routes_export_2025-07-08.csv''
   \<and> file_name (exportRoutesToCSV sampleRuntime [sampleRoute]
        (sampleOptions\<lparr>opt_filename := Some ''backbone'', opt_includeTimestamp := Some False\<rparr>)) =
     ''backbone.csv''"
  using export_file_names [of sampleRuntime "[sampleRoute]" sampleOptions]
    export_file_names [of sampleRuntime "[sampleRoute]"
      "sampleOptions\<lparr>opt_filename := Some ''backbone'', opt_includeTimestamp := Some False\<rparr>"]
  by (simp add: sampleOptions_def sampleRuntime_def str_or_def)

text \<open>
  The claim as stated asks for no date in the name when includeTimestamp is false; the
  bulk export dates its file all the same.
\<close>

theorem bulk_name_counterexample:
  "map_sum id (map_option file_name) (handleExport sampleRuntime All XLSX False sampleData) =
     Inr (Some ''fibernet_complete_export_2025-07-08.xlsx'')
   \<and> map_sum id (map_option file_name) (handleExport sampleRuntime All XLSX False sampleData) \<noteq>
     Inr (Some ''fibernet_complete_export.xlsx'')"
  by (simp add: handleExport_def sampleData_def exportAllData_def sampleRuntime_def)

section \<open>The sheets of the bulk workbook\<close>

text \<open>
  Claim C7, as the code has it. For every bulk workbook export, the workbook always has
  the sheet 'Routes', also when there is no route, followed by one sheet for each of the
  kinds assets, tickets and maintenance whose input sequence is non-empty ('Assets',
  'Trouble Tickets', 'Maintenance', in this order), and no sheet for one of these three
  kinds whose input sequence is empty.
\<close>

theorem bulk_workbook_sheets:
  "map_option sheetNames (exportAllData rt routes tickets assets records XLSX) =
     Some ([''Routes'']
           @ (if assets \<noteq> [] then [''Assets''] else [])
           @ (if tickets \<noteq> [] then [''Trouble Tickets''] else [])
           @ (if records \<noteq> [] then [''Maintenance''] else []))"
  by (simp add: exportAllData_def sheetNames_def bulkWorkbook_def)

theorem bulk_workbook_sheets_witness:
  "map_option sheetNames
     (exportAllData sampleRuntime [sampleRoute] [] [sampleAsset] [sampleMaintenance] XLSX) =
     Some [''Routes'', ''Assets'', ''Maintenance'']"
  using bulk_workbook_sheets [of sampleRuntime "[sampleRoute]" "[]" "[sampleAsset]" "[sampleMaintenance]"]
  by simp

text \<open>
  The claim as stated asks for no sheet for a kind with no record; with no route at all
  the workbook still has the sheet 'Routes'.
\<close>

theorem bulk_workbook_counterexample:
  "data_routes emptyData = Some []
   \<and> map_sum id (map_option sheetNames) (handleExport sampleRuntime All XLSX True emptyData) =
       Inr (Some [''Routes''])"
  by (simp add: handleExport_def emptyData_def exportAllData_def sheetNames_def bulkWorkbook_def)

section \<open>The tables of the bulk report\<close>

text \<open>
  Claim C8, as the code has it. For every bulk report export, the document has a summary
  table of the routes when there is a route and a summary table of the tickets when there
  is a ticket, in this order, each made of the first 10 records of its kind; it has no
  table for the assets and none for the maintenance records, whose numbers appear in the
  title lines only.
\<close>

theorem bulk_report_tables:
  "map_option reportTables (exportAllData rt routes tickets assets records PDF) =
     Some ((if routes \<noteq> []
            then [([''Route'', ''Status'', ''Fibers'', ''Links'', ''Tickets''],
                   map (bulkRoutePdfRow rt) (take 10 routes))] else [])
           @ (if tickets \<noteq> []
              then [([''Ticket #'', ''Route'', ''Priority'', ''Status'', ''Created''],
                     map (bulkTicketPdfRow rt routes) (take 10 tickets))] else []))"
  by (simp add: exportAllData_def reportTables_def bulkReport_def Let_def split: prod.splits)

theorem bulk_report_tables_witness:
  "map_option reportTables
     (exportAllData sampleRuntime (replicate 12 sampleRoute) [sampleTicket] [sampleAsset]
        [sampleMaintenance] PDF) =
     Some [([''Route'', ''Status'', ''Fibers'', ''Links'', ''Tickets''],
            replicate 10 (bulkRoutePdfRow sampleRuntime sampleRoute)),
           ([''Ticket #'', ''Route'', ''Priority'', ''Status'', ''Created''],
            [bulkTicketPdfRow sampleRuntime (replicate 12 sampleRoute) sampleTicket])]"
  using bulk_report_tables [of sampleRuntime "replicate 12 sampleRoute" "[sampleTicket]"
      "[sampleAsset]" "[sampleMaintenance]"]
  by simp

text \<open>
  The claim as stated asks for four tables; with a record of every kind the report has
  two, the routes' and the tickets'.
\<close>

theorem bulk_report_counterexample:
  "data_assets sampleData = Some [sampleAsset]
   \<and> data_maintenance sampleData = Some [sampleMaintenance]
   \<and> map_sum id (map_option (map fst \<circ> reportTables))
       (handleExport sampleRuntime All PDF True sampleData) =
     Inr (Some [[''Route'', ''Status'', ''Fibers'', ''Links'', ''Tickets''],
                [''Ticket #'', ''Route'', ''Priority'', ''Status'', ''Created'']])"
  by (simp add: handleExport_def sampleData_def exportAllData_def reportTables_def
      bulkReport_def Let_def split: prod.splits)

section \<open>Routes that cannot be resolved\<close>

lemma find_no_match:
  "\<forall>r \<in> set routes. route_id r \<noteq> k \<Longrightarrow> find (\<lambda>r. route_id r = k) routes = None"
  by (simp add: find_None_iff)

lemma getRouteName_unmatched:
  "\<forall>r \<in> set routes. route_id r \<noteq> k \<Longrightarrow> getRouteName routes k = ''Unknown Route''"
  by (simp add: getRouteName_def find_no_match)

lemma bulkRouteName_unmatched:
  "\<forall>r \<in> set routes. route_id r \<noteq> k \<Longrightarrow> bulkRouteName routes k = ''Unknown''"
  by (simp add: bulkRouteName_def find_no_match)

lemma handleExport_completes:
  fixes d :: exportData
  assumes "d = \<lparr>data_routes = Some routes, data_tickets = Some tickets,
                 data_assets = Some assets, data_maintenance = Some records\<rparr>"
  shows "(\<exists>f. handleExport rt Tickets XLSX ts d = Inr (Some f))
       \<and> (\<exists>f. handleExport rt Tickets PDF ts d = Inr (Some f))
       \<and> (\<exists>f. handleExport rt Assets XLSX ts d = Inr (Some f))
       \<and> (\<exists>f. handleExport rt Assets PDF ts d = Inr (Some f))
       \<and> (\<exists>f. handleExport rt Maintenance XLSX ts d = Inr (Some f))
       \<and> (\<exists>f. handleExport rt Maintenance PDF ts d = Inr (Some f))
       \<and> (\<exists>f. handleExport rt All XLSX ts d = Inr (Some f))
       \<and> (\<exists>f. handleExport rt All PDF ts d = Inr (Some f))"
  unfolding assms by (simp add: handleExport_def exportAllData_def)

text \<open>
  Claim C2, as the code has it. Whenever a record's route identifier matches no route of
  the companion routes sequence, the exports of a single kind (tickets, assets,
  maintenance records; workbook and report, and the material sheet of the ticket
  workbook) render the literal "Unknown Route" as the record's 'Route' value, the bulk
  export (its asset, ticket and maintenance sheets and its ticket table) renders the
  literal "Unknown", and every one of these exports completes and writes its file.
\<close>

theorem unknown_route_placeholder:
  assumes "\<forall>r \<in> set routes. route_id r \<noteq> ticket_routeId t"
    and "\<forall>r \<in> set routes. route_id r \<noteq> asset_routeId a"
    and "\<forall>r \<in> set routes. route_id r \<noteq> maint_routeId record"
    and "d = \<lparr>data_routes = Some routes, data_tickets = Some tickets,
               data_assets = Some assets, data_maintenance = Some records\<rparr>"
  shows "row_get (ticketExportRow rt routes t) ''Route'' = JStr ''Unknown Route''
       \<and> row_get (materialExportRow rt routes t m) ''Route'' = JStr ''Unknown Route''
       \<and> ticketPdfRow rt routes t ! 1 = JStr ''Unknown Route''
       \<and> row_get (assetExportRow rt routes a) ''Route'' = JStr ''Unknown Route''
       \<and> assetPdfRow rt routes a ! 3 = JStr ''Unknown Route''
       \<and> row_get (maintenanceExportRow routes record) ''Route'' = JStr ''Unknown Route''
       \<and> maintenancePdfRow routes record ! 0 = JStr ''Unknown Route''
       \<and> row_get (bulkTicketRow rt routes t) ''Route'' = JStr ''Unknown''
       \<and> bulkTicketPdfRow rt routes t ! 1 = JStr ''Unknown''
       \<and> row_get (bulkAssetRow routes a) ''Route'' = JStr ''Unknown''
       \<and> row_get (bulkMaintenanceRow routes record) ''Route'' = JStr ''Unknown''
       \<and> (\<exists>f. handleExport rt Tickets XLSX ts d = Inr (Some f))
       \<and> (\<exists>f. handleExport rt Tickets PDF ts d = Inr (Some f))
       \<and> (\<exists>f. handleExport rt Assets XLSX ts d = Inr (Some f))
       \<and> (\<exists>f. handleExport rt Assets PDF ts d = Inr (Some f))
       \<and> (\<exists>f. handleExport rt Maintenance XLSX ts d = Inr (Some f))
       \<and> (\<exists>f. handleExport rt Maintenance PDF ts d = Inr (Some f))
       \<and> (\<exists>f. handleExport rt All XLSX ts d = Inr (Some f))
       \<and> (\<exists>f. handleExport rt All PDF ts d = Inr (Some f))"
proof -
  have rows:
    "row_get (ticketExportRow rt routes t) ''Route'' = JStr ''Unknown Route''"
    "row_get (materialExportRow rt routes t m) ''Route'' = JStr ''Unknown Route''"
    "ticketPdfRow rt routes t ! 1 = JStr ''Unknown Route''"
    "row_get (bulkTicketRow rt routes t) ''Route'' = JStr ''Unknown''"
    "bulkTicketPdfRow rt routes t ! 1 = JStr ''Unknown''"
    using assms(1)
    by (simp_all add: ticketExportRow_def materialExportRow_def ticketPdfRow_def
        bulkTicketRow_def bulkTicketPdfRow_def row_get_def
        getRouteName_unmatched bulkRouteName_unmatched)
  have arows:
    "row_get (assetExportRow rt routes a) ''Route'' = JStr ''Unknown Route''"
    "assetPdfRow rt routes a ! 3 = JStr ''Unknown Route''"
    "row_get (bulkAssetRow routes a) ''Route'' = JStr ''Unknown''"
    using assms(2)
    by (simp_all add: assetExportRow_def assetPdfRow_def bulkAssetRow_def row_get_def
        getRouteName_unmatched bulkRouteName_unmatched)
  have mrows:
    "row_get (maintenanceExportRow routes record) ''Route'' = JStr ''Unknown Route''"
    "maintenancePdfRow routes record ! 0 = JStr ''Unknown Route''"
    "row_get (bulkMaintenanceRow routes record) ''Route'' = JStr ''Unknown''"
    using assms(3)
    by (simp_all add: maintenanceExportRow_def maintenancePdfRow_def bulkMaintenanceRow_def
        row_get_def getRouteName_unmatched bulkRouteName_unmatched)
  from rows arows mrows handleExport_completes [OF assms(4), of rt ts]
  show ?thesis by simp
qed

theorem unknown_route_placeholder_witness:
  "row_get (ticketExportRow sampleRuntime [sampleRoute] sampleTicket) ''Route'' = JStr ''Unknown Route''
   \<and> row_get (materialExportRow sampleRuntime [sampleRoute] sampleTicket sampleMaterial) ''Route''
       = JStr ''Unknown Route''
   \<and> row_get (assetExportRow sampleRuntime [sampleRoute] sampleAsset) ''Route'' = JStr ''Unknown Route''
   \<and> row_get (maintenanceExportRow [sampleRoute] sampleMaintenance) ''Route'' = JStr ''Unknown Route''
   \<and> row_get (bulkAssetRow [sampleRoute] sampleAsset) ''Route'' = JStr ''Unknown''
   \<and> (\<exists>f. handleExport sampleRuntime Tickets XLSX True sampleData = Inr (Some f))"
proof -
  have h1: "\<forall>r \<in> set [sampleRoute]. route_id r \<noteq> ticket_routeId sampleTicket"
    by (simp add: sampleRoute_def sampleTicket_def)
  have h2: "\<forall>r \<in> set [sampleRoute]. route_id r \<noteq> asset_routeId sampleAsset"
    by (simp add: sampleRoute_def sampleAsset_def)
  have h3: "\<forall>r \<in> set [sampleRoute]. route_id r \<noteq> maint_routeId sampleMaintenance"
    by (simp add: sampleRoute_def sampleMaintenance_def)
  have h4: "sampleData = \<lparr>data_routes = Some [sampleRoute], data_tickets = Some [sampleTicket],
               data_assets = Some [sampleAsset], data_maintenance = Some [sampleMaintenance]\<rparr>"
    by (simp add: sampleData_def)
  show ?thesis
    using unknown_route_placeholder [OF h1 h2 h3 h4, of sampleRuntime sampleMaterial True]
    by blast
qed

text \<open>
  The claim as stated asks for "Unknown Route" in the bulk export too; the ticket sheet
  of the bulk workbook reads "Unknown" for a ticket whose route is not in the list.
\<close>

theorem bulk_placeholder_counterexample:
  "find (\<lambda>r. route_id r = ticket_routeId sampleTicket) [sampleRoute] = None
   \<and> map_sum id (map_option (\<lambda>f. map (\<lambda>r. row_get r ''Route'') (sheetRows f ''Trouble Tickets'')))
       (handleExport sampleRuntime All XLSX True sampleData) = Inr (Some [JStr ''Unknown''])"
  by (simp add: handleExport_def sampleData_def exportAllData_def bulkWorkbook_def
      sheetRows_def json_to_sheet_def sheet_to_json_def add_keys_def bulkTicketRow_def
      row_get_def bulkRouteName_def sampleRoute_def sampleTicket_def localeStringOrNA_def)

section \<open>Field resolution of the importers\<close>

text \<open>
  Claim C5, as the code has it. For every parsed import row and every target route field,
  the importer takes the value under the human-readable column label when that value is
  truthy (not missing, not the empty string, not the number zero), otherwise the value
  under the lowercase or camel-case fallback key when that one is truthy, otherwise a
  typed default: status "operational", locations the empty string, numeric counts 0 (a
  count is what \<open>parseInt\<close> reads from the value taken, 0 when it reads no number),
  maintenance dates today's date in ISO form; the name has no default and stays what the
  fallback key holds, and the links collection is always empty. In particular, the
  delimited-text file with header Route Name,Status,Start Location,End Location, a row
  for "Segment A" and a second row with a blank name imports as exactly one record, named
  "Segment A", with status "operational".
\<close>

theorem field_resolution:
  "imp_name (routeOfRow rt r) = resolveField r ''Route Name'' ''name'' (row_get r ''name'')
   \<and> imp_status (routeOfRow rt r) = resolveField r ''Status'' ''status'' (JStr ''operational'')
   \<and> imp_start (routeOfRow rt r) = resolveField r ''Start Location'' ''start'' (JStr [])
   \<and> imp_end (routeOfRow rt r) = resolveField r ''End Location'' ''end'' (JStr [])
   \<and> imp_lastMaintenance (routeOfRow rt r) =
       resolveField r ''Last Maintenance'' ''lastMaintenance'' (JStr (today rt))
   \<and> imp_nextMaintenance (routeOfRow rt r) =
       resolveField r ''Next Maintenance'' ''nextMaintenance'' (JStr (today rt))
   \<and> imp_fiberCount (routeOfRow rt r) = resolveCount rt r ''Fiber Count'' ''fiberCount''
   \<and> imp_troubleTickets (routeOfRow rt r) = resolveCount rt r ''Trouble Tickets'' ''troubleTickets''
   \<and> imp_handhole (routeOfRow rt r) = resolveCount rt r ''Handhole Count'' ''handhole''
   \<and> imp_odc (routeOfRow rt r) = resolveCount rt r ''ODC Count'' ''odc''
   \<and> imp_pole (routeOfRow rt r) = resolveCount rt r ''Pole Count'' ''pole''
   \<and> imp_jc (routeOfRow rt r) = resolveCount rt r ''JC Count'' ''jc''
   \<and> imp_links (routeOfRow rt r) = []
   \<and> handleImport rt Routes scenarioFile =
       Inr [\<lparr>imp_name = JStr ''Segment A'', imp_status = JStr ''operational'',
             imp_fiberCount = 0, imp_start = JStr ''Node1'', imp_end = JStr ''Node2'',
             imp_lastMaintenance = JStr (today rt), imp_nextMaintenance = JStr (today rt),
             imp_troubleTickets = 0, imp_handhole = 0, imp_odc = 0, imp_pole = 0, imp_jc = 0,
             imp_links = []\<rparr>]"
proof -
  have fields:
    "imp_name (routeOfRow rt r) = resolveField r ''Route Name'' ''name'' (row_get r ''name'')"
    "imp_status (routeOfRow rt r) = resolveField r ''Status'' ''status'' (JStr ''operational'')"
    "imp_start (routeOfRow rt r) = resolveField r ''Start Location'' ''start'' (JStr [])"
    "imp_end (routeOfRow rt r) = resolveField r ''End Location'' ''end'' (JStr [])"
    "imp_lastMaintenance (routeOfRow rt r) =
       resolveField r ''Last Maintenance'' ''lastMaintenance'' (JStr (today rt))"
    "imp_nextMaintenance (routeOfRow rt r) =
       resolveField r ''Next Maintenance'' ''nextMaintenance'' (JStr (today rt))"
    "imp_links (routeOfRow rt r) = []"
    by (simp_all add: routeOfRow_def resolveField_def js_or_def)
  have counts:
    "imp_fiberCount (routeOfRow rt r) = resolveCount rt r ''Fiber Count'' ''fiberCount''"
    "imp_troubleTickets (routeOfRow rt r) = resolveCount rt r ''Trouble Tickets'' ''troubleTickets''"
    "imp_handhole (routeOfRow rt r) = resolveCount rt r ''Handhole Count'' ''handhole''"
    "imp_odc (routeOfRow rt r) = resolveCount rt r ''ODC Count'' ''odc''"
    "imp_pole (routeOfRow rt r) = resolveCount rt r ''Pole Count'' ''pole''"
    "imp_jc (routeOfRow rt r) = resolveCount rt r ''JC Count'' ''jc''"
    by (simp_all add: routeOfRow_def resolveCount_def js_or_def parseIntOr0_falsy)
  have scenario: "handleImport rt Routes scenarioFile =
       Inr [\<lparr>imp_name = JStr ''Segment A'', imp_status = JStr ''operational'',
             imp_fiberCount = 0, imp_start = JStr ''Node1'', imp_end = JStr ''Node2'',
             imp_lastMaintenance = JStr (today rt), imp_nextMaintenance = JStr (today rt),
             imp_troubleTickets = 0, imp_handhole = 0, imp_odc = 0, imp_pole = 0, imp_jc = 0,
             imp_links = []\<rparr>]"
    by (simp add: handleImport_def scenarioFile_def endsWith_def importRoutesFromCSV_def
        papa_lines_def papa_parse_def routeOfRow_def row_get_def js_or_def parseIntOr0_undefined)
  from fields counts scenario show ?thesis by simp
qed

text \<open>
  A row with the label and the fallback key of the fiber count, and with neither key of
  the status.
\<close>

theorem field_resolution_witness:
  "imp_fiberCount (routeOfRow sampleRuntime
       [(''Route Name'', JStr ''Ring 1''), (''Fiber Count'', JStr ''96''), (''fiberCount'', JNum 48)])
     = 96
   \<and> imp_fiberCount (routeOfRow sampleRuntime [(''name'', JStr ''Ring 1''), (''fiberCount'', JNum 48)])
     = 48
   \<and> imp_name (routeOfRow sampleRuntime [(''name'', JStr ''Ring 1''), (''fiberCount'', JNum 48)])
     = JStr ''Ring 1''
   \<and> imp_status (routeOfRow sampleRuntime [(''name'', JStr ''Ring 1''), (''fiberCount'', JNum 48)])
     = JStr ''operational''
   \<and> imp_lastMaintenance (routeOfRow sampleRuntime [(''name'', JStr ''Ring 1''), (''fiberCount'', JNum 48)])
     = JStr ''2025-07-08''"
proof -
  have n96: "parseIntOr0 sampleRuntime (JStr ''96'') = 96"
    using parseIntOr0_text [of sampleRuntime 96]
    by (simp add: show_int_def show_nat.simps digit_char_def)
  have n48: "parseIntOr0 sampleRuntime (JNum 48) = 48"
    using parseIntOr0_number [of 48 sampleRuntime] by (simp add: maxSafeInteger_def)
  have td: "today sampleRuntime = ''2025-07-08''"
    by (simp add: sampleRuntime_def)
  show ?thesis
    using field_resolution [of sampleRuntime
        "[(''Route Name'', JStr ''Ring 1''), (''Fiber Count'', JStr ''96''), (''fiberCount'', JNum 48)]"]
      field_resolution [of sampleRuntime "[(''name'', JStr ''Ring 1''), (''fiberCount'', JNum 48)]"]
    by (simp add: resolveField_def resolveCount_def row_get_def n96 n48 td)
qed

text \<open>
  The claim as stated takes the value under the label whenever one is present. A sheet
  that holds the number zero under 'Fiber Count' and seven under 'fiberCount' imports
  with a fiber count of seven: \<open>||\<close> passes over the zero.
\<close>

theorem zero_label_counterexample:
  "map (\<lambda>r. row_get r ''Fiber Count'') (sheetRows zeroCountWorkbook ''Routes'') = [JNum 0]
   \<and> map_sum id (map imp_fiberCount) (handleImport sampleRuntime Routes zeroCountWorkbook)
       = Inr [7]"
proof -
  have n7: "parseIntOr0 sampleRuntime (JNum 7) = 7"
    using parseIntOr0_number [of 7 sampleRuntime] by (simp add: maxSafeInteger_def)
  show ?thesis
    by (simp add: zeroCountWorkbook_def sheetRows_def sheet_to_json_def row_get_def
        handleImport_def endsWith_def importRoutesFromXLSX_def xlsx_read_def routeOfRow_def
        js_or_def n7)
qed

section \<open>Rows without a name\<close>

text \<open>
  Claim C4 says that both importers drop a row whose name is empty or absent, and that
  an import left with no row fails with EmptyImport. The delimited-text importer does
  so. The workbook importer has no such filter: from a sheet whose only row has a status
  and locations but no name it returns one record with an undefined name, where the
  delimited-text importer, given the same table, fails with EmptyImport.
\<close>

theorem nameless_row_import:
  "map_sum id (map imp_name) (handleImport sampleRuntime Routes namelessWorkbook) = Inr [Undefined]
   \<and> handleImport sampleRuntime Routes namelessCsv = Inl EmptyImport"
  by (simp add: handleImport_def namelessWorkbook_def namelessCsv_def namelessSheet_def
      endsWith_def importRoutesFromXLSX_def importRoutesFromCSV_def xlsx_read_def
      papa_lines_def sheet_to_json_def papa_parse_def routeOfRow_def row_get_def js_or_def)

section \<open>Export followed by import\<close>

lemma routeExportRow_keys: "map fst (routeExportRow rt r) = routeKeys"
  by (simp add: routeExportRow_def routeKeys_def)

lemma distinct_routeKeys: "distinct routeKeys"
  by (simp add: routeKeys_def)

lemma add_keys_append:
  "distinct ks \<Longrightarrow> set h \<inter> set ks = {} \<Longrightarrow> add_keys h ks = h @ ks"
  unfolding add_keys_def
  by (induction ks arbitrary: h) auto

lemma add_keys_known: "set ks \<subseteq> set h \<Longrightarrow> add_keys h ks = h"
  unfolding add_keys_def
  by (induction ks arbitrary: h) auto

lemma header_uniform:
  assumes "\<forall>obj \<in> set data. map fst obj = ks" and "set ks \<subseteq> set h"
  shows "foldl (\<lambda>h obj. add_keys h (map fst obj)) h data = h"
  using assms by (induction data arbitrary: h) (simp_all add: add_keys_known)

lemma json_to_sheet_header:
  assumes "data \<noteq> []" and "\<forall>obj \<in> set data. map fst obj = ks" and "distinct ks"
  shows "header (json_to_sheet data) = ks"
proof -
  obtain x xs where d: "data = x # xs" using assms(1) by (cases data) auto
  have "add_keys [] (map fst x) = ks"
    using assms(2,3) d add_keys_append[of ks "[]"] by simp
  then show ?thesis
    using assms(2) d header_uniform[of xs ks ks]
    by (simp add: json_to_sheet_def)
qed

lemma route_sheet_header:
  "routes \<noteq> [] \<Longrightarrow> header (json_to_sheet (map (routeExportRow rt) routes)) = routeKeys"
  by (rule json_to_sheet_header) (simp_all add: routeExportRow_keys distinct_routeKeys)

lemma route_row_readback:
  "filter (\<lambda>(k, v). v \<noteq> Undefined)
     (zip routeKeys (map (row_get (routeExportRow rt r)) routeKeys))
     = routeExportRow rt r"
  by (simp add: routeKeys_def routeExportRow_def row_get_def)

lemma routeExportRow_nonempty: "routeExportRow rt r \<noteq> []"
  by (simp add: routeExportRow_def)

lemma route_sheet_readback:
  assumes "routes \<noteq> []"
  shows "sheet_to_json (json_to_sheet (map (routeExportRow rt) routes)\<lparr>cols := c\<rparr>)
           = map (routeExportRow rt) routes"
proof -
  have cells: "cells (json_to_sheet (map (routeExportRow rt) routes)) =
      map (\<lambda>r. map (row_get (routeExportRow rt r)) routeKeys) routes"
    using route_sheet_header[OF assms, of rt]
    by (simp add: json_to_sheet_def Let_def comp_def)
  show ?thesis
    unfolding sheet_to_json_def
    by (simp add: cells route_sheet_header[OF assms] comp_def route_row_readback
        routeExportRow_nonempty)
qed

text \<open>What the workbook importer makes of an exported row.\<close>

lemma xlsx_row_fields:
  assumes "route_name r \<noteq> []" and "route_status r \<noteq> []"
  shows "imp_name (routeOfRow rt' (routeExportRow rt r)) = JStr (route_name r)"
    and "imp_status (routeOfRow rt' (routeExportRow rt r)) = JStr (route_status r)"
    and "imp_start (routeOfRow rt' (routeExportRow rt r)) = JStr (route_start r)"
    and "imp_end (routeOfRow rt' (routeExportRow rt r)) = JStr (route_end r)"
    and "imp_links (routeOfRow rt' (routeExportRow rt r)) = []"
  using assms
  by (simp_all add: routeOfRow_def routeExportRow_def row_get_def js_or_def)

lemma xlsx_row_fiberCount:
  assumes "\<bar>route_fiberCount r\<bar> \<le> maxSafeInteger"
  shows "imp_fiberCount (routeOfRow rt' (routeExportRow rt r)) = route_fiberCount r"
proof -
  have "imp_fiberCount (routeOfRow rt' (routeExportRow rt r)) =
      parseIntOr0 rt' (js_or (JNum (of_int (route_fiberCount r))) Undefined)"
    by (simp add: routeOfRow_def routeExportRow_def row_get_def)
  also have "\<dots> = route_fiberCount r"
    using assms
    by (cases "route_fiberCount r = 0")
       (simp_all add: js_or_def parseIntOr0_number parseIntOr0_undefined)
  finally show ?thesis .
qed

text \<open>What the delimited-text importer makes of the line written for a route.\<close>

lemma csv_readback:
  assumes "routes \<noteq> []"
  shows "papa_parse (papa_unparse rt (map (routeExportRow rt) routes)) = map (csvRow rt) routes"
proof -
  obtain x xs where d: "routes = x # xs" using assms by (cases routes) auto
  show ?thesis
    unfolding d papa_unparse_def papa_parse_def
    by (simp add: routeExportRow_keys csvRow_def Let_def)
qed

lemma csvRow_fields:
  "row_get (csvRow rt r) ''Route Name'' = JStr (route_name r)"
  "row_get (csvRow rt r) ''Status'' = JStr (route_status r)"
  "row_get (csvRow rt r) ''Start Location'' = JStr (route_start r)"
  "row_get (csvRow rt r) ''End Location'' = JStr (route_end r)"
  "row_get (csvRow rt r) ''Fiber Count'' = JStr (numberToString rt (of_int (route_fiberCount r)))"
  "row_get (csvRow rt r) ''name'' = Undefined"
  "row_get (csvRow rt r) ''status'' = Undefined"
  "row_get (csvRow rt r) ''start'' = Undefined"
  "row_get (csvRow rt r) ''end'' = Undefined"
  "row_get (csvRow rt r) ''fiberCount'' = Undefined"
  by (simp_all add: csvRow_def routeKeys_def routeExportRow_def row_get_def csvField_def)

lemma csv_row_fields:
  assumes "route_name r \<noteq> []" and "route_status r \<noteq> []"
  shows "imp_name (routeOfRow rt' (csvRow rt r)) = JStr (route_name r)"
    and "imp_status (routeOfRow rt' (csvRow rt r)) = JStr (route_status r)"
    and "imp_start (routeOfRow rt' (csvRow rt r)) = JStr (route_start r)"
    and "imp_end (routeOfRow rt' (csvRow rt r)) = JStr (route_end r)"
    and "imp_links (routeOfRow rt' (csvRow rt r)) = []"
  using assms
  by (simp_all add: routeOfRow_def csvRow_fields js_or_def)

lemma csv_row_fiberCount:
  assumes "\<bar>route_fiberCount r\<bar> \<le> maxSafeInteger"
  shows "imp_fiberCount (routeOfRow rt' (csvRow rt r)) = route_fiberCount r"
  using assms
  by (simp add: routeOfRow_def csvRow_fields js_or_def numberToString_int show_int_nonempty
      parseIntOr0_text)

lemma endsWith_append: "endsWith (a @ t) t"
  by (simp add: endsWith_def)

lemma endsWith_last: "endsWith s t \<Longrightarrow> t \<noteq> [] \<Longrightarrow> last s = last t"
  unfolding endsWith_def
  by (metis append_take_drop_id last_appendR)

lemma csv_name_not_xlsx: "\<not> endsWith (a @ ''.csv'') ''.xlsx''"
proof
  assume "endsWith (a @ ''.csv'') ''.xlsx''"
  then have "last (a @ ''.csv'') = last ''.xlsx''"
    by (rule endsWith_last) simp
  then show False by simp
qed

lemma xlsx_roundtrip:
  assumes "routes \<noteq> []"
  shows "handleImport rt' Routes (exportRoutesToXLSX rt routes options)
           = Inr (map (\<lambda>r. routeOfRow rt' (routeExportRow rt r)) routes)"
proof -
  have name: "endsWith (file_name (exportRoutesToXLSX rt routes options)) ''.xlsx''"
    using endsWith_append[of "str_or (opt_filename options) ''routes_export'' @ timestampSuffix rt options" "''.xlsx''"]
    by (simp add: exportRoutesToXLSX_def Let_def)
  have imp: "importRoutesFromXLSX rt' (exportRoutesToXLSX rt routes options)
      = Inr (map (\<lambda>r. routeOfRow rt' (routeExportRow rt r)) routes)"
    by (simp add: importRoutesFromXLSX_def xlsx_read_def exportRoutesToXLSX_def Let_def
        route_sheet_readback[OF assms] comp_def)
  show ?thesis
    unfolding handleImport_def using name assms by (simp add: imp)
qed

lemma csv_file_name:
  "endsWith (file_name (exportRoutesToCSV rt routes options)) ''.csv''"
  "\<not> endsWith (file_name (exportRoutesToCSV rt routes options)) ''.xlsx''"
  using endsWith_append[of "str_or (opt_filename options) ''routes_export'' @ timestampSuffix rt options" "''.csv''"]
    csv_name_not_xlsx[of "str_or (opt_filename options) ''routes_export'' @ timestampSuffix rt options"]
  by (simp_all add: exportRoutesToCSV_def Let_def)

lemma csv_import:
  assumes "routes \<noteq> []"
  shows "importRoutesFromCSV rt' (exportRoutesToCSV rt routes options)
           = Inr (filter (\<lambda>route. truthy (imp_name route))
                    (map (\<lambda>r. routeOfRow rt' (csvRow rt r)) routes))"
  by (simp add: importRoutesFromCSV_def papa_lines_def exportRoutesToCSV_def Let_def
      csv_readback[OF assms] comp_def)

lemma csv_roundtrip:
  assumes "routes \<noteq> []" and "\<forall>r \<in> set routes. route_name r \<noteq> [] \<and> route_status r \<noteq> []"
  shows "handleImport rt' Routes (exportRoutesToCSV rt routes options)
           = Inr (map (\<lambda>r. routeOfRow rt' (csvRow rt r)) routes)"
proof -
  have keep: "filter (\<lambda>route. truthy (imp_name route)) (map (\<lambda>r. routeOfRow rt' (csvRow rt r)) routes)
      = map (\<lambda>r. routeOfRow rt' (csvRow rt r)) routes"
    using assms(2) by (simp add: filter_id_conv csv_row_fields(1))
  show ?thesis
    unfolding handleImport_def using csv_file_name[of rt routes options] assms(1)
    by (simp add: csv_import[OF assms(1)] keep)
qed

text \<open>
  Claim C1, as the code has it. For every non-empty sequence of routes whose names are
  non-empty (and whose statuses are, as every status of the enumeration is) and whose
  fiber counts are whole numbers of magnitude at most \<open>2^53 - 1\<close>, the range in which
  JavaScript prints a number with all its digits, exporting with exportRoutes, to a
  workbook or to delimited text, and then importing the produced file with importRoutes
  yields one record per route, in order, whose name, status, fiber count and start and
  end locations equal those of the route, and whose links collection is empty. This holds
  whatever the rounding of the arithmetic and the printing of larger numbers, on the
  exporting and on the importing side.
\<close>

theorem export_import_roundtrip:
  assumes "routes \<noteq> []"
    and "\<forall>r \<in> set routes. route_name r \<noteq> [] \<and> route_status r \<noteq> []
           \<and> \<bar>route_fiberCount r\<bar> \<le> maxSafeInteger"
  shows "(\<exists>imported. handleImport rt' Routes (exportRoutesToXLSX rt routes options) = Inr imported
            \<and> sameRoutes routes imported)
       \<and> (\<exists>imported. handleImport rt' Routes (exportRoutesToCSV rt routes options) = Inr imported
            \<and> sameRoutes routes imported)"
proof -
  have names: "\<forall>r \<in> set routes. route_name r \<noteq> [] \<and> route_status r \<noteq> []"
    using assms(2) by simp
  have x: "sameRoutes routes (map (\<lambda>r. routeOfRow rt' (routeExportRow rt r)) routes)"
    using assms(2)
    by (simp add: sameRoutes_def comp_def xlsx_row_fields xlsx_row_fiberCount)
  have c: "sameRoutes routes (map (\<lambda>r. routeOfRow rt' (csvRow rt r)) routes)"
    using assms(2)
    by (simp add: sameRoutes_def comp_def csv_row_fields csv_row_fiberCount)
  from x c xlsx_roundtrip[OF assms(1)] csv_roundtrip[OF assms(1) names]
  show ?thesis by simp
qed

theorem export_import_roundtrip_witness:
  "(\<exists>imported. handleImport sampleRuntime Routes
        (exportRoutesToXLSX sampleRuntime [sampleRoute] sampleOptions) = Inr imported
      \<and> sameRoutes [sampleRoute] imported)
   \<and> (\<exists>imported. handleImport sampleRuntime Routes
        (exportRoutesToCSV sampleRuntime [sampleRoute] sampleOptions) = Inr imported
      \<and> sameRoutes [sampleRoute] imported)"
proof -
  have h1: "[sampleRoute] \<noteq> []" by simp
  have h2: "\<forall>r \<in> set [sampleRoute]. route_name r \<noteq> [] \<and> route_status r \<noteq> []
      \<and> \<bar>route_fiberCount r\<bar> \<le> maxSafeInteger"
    by (simp add: sampleRoute_def maxSafeInteger_def)
  show ?thesis
    using export_import_roundtrip [OF h1 h2] by blast
qed

text \<open>
  The claim as stated covers a route whose name is the empty string, and a fiber count of
  any size. Exported alone to delimited text, the route without a name is dropped as a
  blank row on import, and the import fails with EmptyImport. A fiber count of \<open>10^21\<close>
  is written 1e+21 by the delimited-text export, and by \<open>parseInt\<close> when it reads the
  number of the workbook's cell; both imports give a fiber count of 1.
\<close>

theorem roundtrip_counterexample:
  "handleImport sampleRuntime Routes (exportRoutesToCSV sampleRuntime [unnamedRoute] sampleOptions)
     = Inl EmptyImport
   \<and> route_fiberCount hugeRoute = 10 ^ 21
   \<and> map_sum id (map imp_fiberCount)
       (handleImport sampleRuntime Routes (exportRoutesToCSV sampleRuntime [hugeRoute] sampleOptions))
     = Inr [1]
   \<and> map_sum id (map imp_fiberCount)
       (handleImport sampleRuntime Routes (exportRoutesToXLSX sampleRuntime [hugeRoute] sampleOptions))
     = Inr [1]"
proof -
  have nm: "imp_name (routeOfRow sampleRuntime (csvRow sampleRuntime unnamedRoute)) = Undefined"
    by (simp add: routeOfRow_def csvRow_fields js_or_def unnamedRoute_def)
  have csv: "handleImport sampleRuntime Routes (exportRoutesToCSV sampleRuntime [unnamedRoute] sampleOptions)
     = Inl EmptyImport"
    unfolding handleImport_def
    using csv_file_name[of sampleRuntime "[unnamedRoute]" sampleOptions]
    by (simp add: csv_import nm)
  have huge: "route_fiberCount hugeRoute = 10 ^ 21" "route_name hugeRoute \<noteq> []"
    "route_status hugeRoute \<noteq> []"
    by (simp_all add: hugeRoute_def sampleRoute_def)
  have printed: "numberToString sampleRuntime 1000000000000000000000 = ''1e+21''"
    by (simp add: numberToString_def maxSafeInteger_def sampleRuntime_def)
  have hc: "imp_fiberCount (routeOfRow sampleRuntime (csvRow sampleRuntime hugeRoute)) = 1"
    by (simp add: routeOfRow_def csvRow_fields js_or_def huge printed parseIntOr0_def
        parseInt_def parseIntString_exponent)
  have hx: "imp_fiberCount (routeOfRow sampleRuntime (routeExportRow sampleRuntime hugeRoute)) = 1"
    by (simp add: routeOfRow_def routeExportRow_def row_get_def js_or_def huge printed
        parseIntOr0_def parseInt_def parseIntString_exponent)
  have hugeCsv: "map_sum id (map imp_fiberCount)
       (handleImport sampleRuntime Routes (exportRoutesToCSV sampleRuntime [hugeRoute] sampleOptions))
     = Inr [1]"
    using csv_roundtrip[of "[hugeRoute]" sampleRuntime sampleRuntime sampleOptions] huge
    by (simp add: hc)
  have hugeXlsx: "map_sum id (map imp_fiberCount)
       (handleImport sampleRuntime Routes (exportRoutesToXLSX sampleRuntime [hugeRoute] sampleOptions))
     = Inr [1]"
    using xlsx_roundtrip[of "[hugeRoute]" sampleRuntime sampleRuntime sampleOptions]
    by (simp add: hx)
  from csv huge(1) hugeCsv hugeXlsx show ?thesis by simp
qed

end
